theory Spec2Isabelle
  imports Main "HOL-Library.AList" "HOL-Library.Sublist"
begin

section \<open>Values carried over a data channel\<close>

text \<open>
  The payload of a channel is a JavaScript value (\<^verbatim>\<open>data: any\<close>). A primitive value is
  kept as far as its truthiness and its string contents matter; numbers are integers.
\<close>

datatype js_prim = JUndefined | JNull | JBool bool | JNum int | JStr string

fun truthy :: "js_prim \<Rightarrow> bool" where
  "truthy JUndefined = False"
| "truthy JNull = False"
| "truthy (JBool b) = b"
| "truthy (JNum n) = (n \<noteq> 0)"
| "truthy (JStr s) = (s \<noteq> [])"

text \<open>\<^verbatim>\<open>interface UserInfo { id: string; username: string }\<close>\<close>

record UserInfo =
  user_id :: string
  username :: string

text \<open>
  \<^verbatim>\<open>type Message = { id: number; sender: string; content: string; timestamp: number }\<close>.
  The counter that feeds \<open>id\<close> starts at 0 and is only ever incremented by one, so its
  values are natural numbers; \<open>js_increment\<close> below is the increment of the code.
\<close>

record Message =
  msg_id :: nat
  sender :: string
  content :: string
  timestamp :: int

text \<open>
  An object received from a peer: its \<open>type\<close> field, which may be absent or hold any
  primitive, and the fields the four room messages read, each absent (\<open>None\<close>) or present.
\<close>

record js_object =
  type_field :: js_prim
  user_field :: "UserInfo option"
  userId_field :: "string option"
  message_field :: "Message option"
  users_field :: "UserInfo list option"

datatype js_data = JPrimitive js_prim | JObject js_object

text \<open>\<^verbatim>\<open>typeof data === 'object'\<close> holds of objects and of \<open>null\<close>.\<close>

fun is_object :: "js_data \<Rightarrow> bool" where
  "is_object (JPrimitive p) = (p = JNull)"
| "is_object (JObject obj) = True"

text \<open>The object literals of the four room messages.\<close>

definition JoinMessage :: "UserInfo \<Rightarrow> js_data" where
  "JoinMessage u = JObject \<lparr>type_field = JStr ''JOIN'', user_field = Some u,
     userId_field = None, message_field = None, users_field = None\<rparr>"

definition LeaveMessage :: "string \<Rightarrow> js_data" where
  "LeaveMessage uid = JObject \<lparr>type_field = JStr ''LEAVE'', user_field = None,
     userId_field = Some uid, message_field = None, users_field = None\<rparr>"

definition ChatMessage :: "Message \<Rightarrow> js_data" where
  "ChatMessage m = JObject \<lparr>type_field = JStr ''CHAT'', user_field = None,
     userId_field = None, message_field = Some m, users_field = None\<rparr>"

definition UserListMessage :: "UserInfo list \<Rightarrow> js_data" where
  "UserListMessage us = JObject \<lparr>type_field = JStr ''USER_LIST'', user_field = None,
     userId_field = None, message_field = None, users_field = Some us\<rparr>"

section \<open>Observable actions\<close>

text \<open>
  What a function does besides changing the fields of its object is recorded, in order,
  as a list of actions: console output, calls into the PeerJS objects, the settling of the
  promises of \<open>initialize\<close>, \<open>connect\<close> and \<open>join\<close>, the calls of the handlers registered
  with \<open>on\<close>, and the calls of the callbacks of \<open>RoomOptions\<close>.
\<close>

datatype handler_call =
    HConnect string
  | HDisconnect string
  | HMessage js_data string
  | HError

datatype settle =
    InitializeResolved string
  | InitializeRejected
  | ConnectResolved
  | ConnectRejected

datatype effect =
    ConsoleLog
  | ConsoleError
  | ConsoleWarn
  | NewPeer "string option"
  | PeerConnect string
  | PeerDestroy
  | Send string js_data
  | Close string
  | Settle settle
  | Handler handler_call
  | OnJoin string string
  | OnLeave string
  | OnMessage "Message option" string
  | OnError
  | JoinResolved string
  | JoinRejected
  | ThrowTypeError

text \<open>An optional call \<^verbatim>\<open>f?.(...)\<close>: made when \<open>f\<close> is registered.\<close>

definition optional_call :: "bool \<Rightarrow> effect \<Rightarrow> effect list" where
  "optional_call registered e = (if registered then [e] else [])"

section \<open>The connection manager: class WebRTCConnection\<close>

datatype ConnectionState = DISCONNECTED | CONNECTING | CONNECTED | FAILED

text \<open>
  The PeerJS objects are outside the repository. A \<open>DataConnection\<close> is known by the remote
  identity \<open>conn.peer\<close> and by whether its \<open>send\<close> throws; a \<open>Peer\<close> by the identity it was
  constructed with (none when \<open>userId\<close> is empty) and by whether its \<open>connect\<close> throws.
\<close>

record DataConnection =
  conn_peer :: string
  send_throws :: bool

record Peer =
  requested_id :: "string option"
  connect_throws :: bool

text \<open>\<open>ConnectionEventHandlers\<close>: each handler is optional; the flag tells whether it is set.\<close>

record ConnectionEventHandlers =
  has_onConnect :: bool
  has_onDisconnect :: bool
  has_onMessage :: bool
  has_onError :: bool

text \<open>
  The fields of the class. \<open>connections\<close> is a JavaScript \<open>Map\<close>: an association list in
  insertion order, written with \<open>AList.update\<close> (\<open>set\<close>), \<open>AList.delete\<close> (\<open>delete\<close>) and read
  with \<open>map_of\<close> (\<open>get\<close>). The \<open>config\<close> field is only handed to the \<open>Peer\<close> constructor
  and is left out.
\<close>

record WebRTCConnection =
  peer :: "Peer option"
  connections :: "(string \<times> DataConnection) list"
  state :: ConnectionState
  events :: ConnectionEventHandlers
  userId :: string

definition new_WebRTCConnection :: "string \<Rightarrow> WebRTCConnection" where
  "new_WebRTCConnection uid =
     \<lparr>peer = None, connections = [], state = DISCONNECTED,
      events = \<lparr>has_onConnect = False, has_onDisconnect = False,
                has_onMessage = False, has_onError = False\<rparr>,
      userId = uid\<rparr>"

text \<open>
  \<open>initialize\<close>: constructs the \<open>Peer\<close> and registers its listeners. \<open>ctor_throws\<close> tells
  whether the constructor throws (the \<open>catch\<close> branch), \<open>cthrows\<close> how the new \<open>Peer\<close>
  will behave on \<open>connect\<close>.
\<close>

definition initialize :: "WebRTCConnection \<Rightarrow> bool \<Rightarrow> bool \<Rightarrow> WebRTCConnection \<times> effect list" where
  "initialize c ctor_throws cthrows =
     (let rid = (if userId c \<noteq> [] then Some (userId c) else None) in
      if ctor_throws then (c, [ConsoleError, Settle InitializeRejected])
      else (c\<lparr>peer := Some \<lparr>requested_id = rid, connect_throws = cthrows\<rparr>\<rparr>, [NewPeer rid]))"

text \<open>The listeners \<open>initialize\<close> registers on the \<open>Peer\<close>: \<open>open\<close>, \<open>error\<close>, \<open>connection\<close>.\<close>

definition peer_on_open :: "WebRTCConnection \<Rightarrow> string \<Rightarrow> WebRTCConnection \<times> effect list" where
  "peer_on_open c pid = (c\<lparr>state := CONNECTED\<rparr>, [ConsoleLog, Settle (InitializeResolved pid)])"

definition peer_on_error :: "WebRTCConnection \<Rightarrow> WebRTCConnection \<times> effect list" where
  "peer_on_error c =
     (c, [ConsoleError] @ optional_call (has_onError (events c)) (Handler HError) @
         (if state c \<noteq> CONNECTED then [Settle InitializeRejected] else []))"

text \<open>\<open>handleIncomingConnection\<close> only registers listeners on the new connection.\<close>

definition handleIncomingConnection :: "WebRTCConnection \<Rightarrow> DataConnection \<Rightarrow> WebRTCConnection \<times> effect list" where
  "handleIncomingConnection c conn = (c, [])"

text \<open>
  \<open>connect\<close>: rejects when there is no \<open>Peer\<close>; otherwise sets the state to \<open>CONNECTING\<close>
  before calling \<open>peer.connect\<close>, whose exception is caught, logged and turned into a
  rejection.
\<close>

definition connect :: "WebRTCConnection \<Rightarrow> string \<Rightarrow> WebRTCConnection \<times> effect list" where
  "connect c remotePeerId =
     (case peer c of
        None \<Rightarrow> (c, [Settle ConnectRejected])
      | Some p \<Rightarrow>
          if connect_throws p
          then (c\<lparr>state := CONNECTING\<rparr>, [ConsoleError, Settle ConnectRejected])
          else (c\<lparr>state := CONNECTING\<rparr>, [PeerConnect remotePeerId]))"

text \<open>
  The listeners on a \<open>DataConnection\<close>. \<open>open\<close> of an outbound connection (registered by
  \<open>connect\<close>) also resolves the promise of \<open>connect\<close>; \<open>error\<close> is registered on outbound
  connections only; \<open>data\<close> and \<open>close\<close> come from \<open>setupConnectionListeners\<close>.
\<close>

definition conn_on_open_outbound :: "WebRTCConnection \<Rightarrow> DataConnection \<Rightarrow> WebRTCConnection \<times> effect list" where
  "conn_on_open_outbound c conn =
     (c\<lparr>connections := AList.update (conn_peer conn) conn (connections c)\<rparr>,
      optional_call (has_onConnect (events c)) (Handler (HConnect (conn_peer conn))) @
      [Settle ConnectResolved])"

definition conn_on_open_inbound :: "WebRTCConnection \<Rightarrow> DataConnection \<Rightarrow> WebRTCConnection \<times> effect list" where
  "conn_on_open_inbound c conn =
     (c\<lparr>connections := AList.update (conn_peer conn) conn (connections c)\<rparr>,
      optional_call (has_onConnect (events c)) (Handler (HConnect (conn_peer conn))))"

definition conn_on_error :: "WebRTCConnection \<Rightarrow> string \<Rightarrow> WebRTCConnection \<times> effect list" where
  "conn_on_error c remotePeerId =
     (c, [ConsoleError] @ optional_call (has_onError (events c)) (Handler HError) @
         [Settle ConnectRejected])"

definition conn_on_data :: "WebRTCConnection \<Rightarrow> string \<Rightarrow> js_data \<Rightarrow> WebRTCConnection \<times> effect list" where
  "conn_on_data c remotePeerId data =
     (c, if has_onMessage (events c) \<and> is_object data
         then [Handler (HMessage data remotePeerId)] else [])"

definition conn_on_close :: "WebRTCConnection \<Rightarrow> string \<Rightarrow> WebRTCConnection \<times> effect list" where
  "conn_on_close c remotePeerId =
     (c\<lparr>connections := AList.delete remotePeerId (connections c)\<rparr>,
      optional_call (has_onDisconnect (events c)) (Handler (HDisconnect remotePeerId)))"

text \<open>
  \<open>sendMessage(peerId, message)\<close>: the boolean it returns and what it does. The fields of
  the connection manager are not changed.
\<close>

definition conn_sendMessage :: "WebRTCConnection \<Rightarrow> string \<Rightarrow> js_data \<Rightarrow> bool \<times> effect list" where
  "conn_sendMessage c peerId m =
     (case map_of (connections c) peerId of
        None \<Rightarrow> (False, [ConsoleError])
      | Some conn \<Rightarrow>
          if send_throws conn then (False, [ConsoleError])
          else (True, [Send peerId m]))"

text \<open>
  \<open>broadcast(message): void\<close>: \<open>forEach\<close> over the map in insertion order, each \<open>send\<close> in
  its own \<open>try\<close>/\<open>catch\<close>. The function returns nothing, which is the value \<open>()\<close>.
\<close>

fun broadcast_each :: "(string \<times> DataConnection) list \<Rightarrow> js_data \<Rightarrow> effect list" where
  "broadcast_each [] m = []"
| "broadcast_each ((peerId, conn) # rest) m =
     (if send_throws conn then [ConsoleError] else [Send peerId m]) @ broadcast_each rest m"

definition broadcast :: "WebRTCConnection \<Rightarrow> js_data \<Rightarrow> unit \<times> effect list" where
  "broadcast c m = ((), broadcast_each (connections c) m)"

definition disconnectFrom :: "WebRTCConnection \<Rightarrow> string \<Rightarrow> WebRTCConnection \<times> effect list" where
  "disconnectFrom c peerId =
     (case map_of (connections c) peerId of
        None \<Rightarrow> (c, [])
      | Some conn \<Rightarrow> (c\<lparr>connections := AList.delete peerId (connections c)\<rparr>, [Close peerId]))"

text \<open>
  \<open>disconnect\<close>: closes every connection, clears the map, destroys the \<open>Peer\<close> when there
  is one, and sets the state. The \<open>close\<close> events that PeerJS raises for the closed
  connections are deliveries of \<open>conn_on_close\<close>.
\<close>

definition disconnect :: "WebRTCConnection \<Rightarrow> WebRTCConnection \<times> effect list" where
  "disconnect c =
     (c\<lparr>connections := [], peer := None, state := DISCONNECTED\<rparr>,
      map (\<lambda>(peerId, conn). Close peerId) (connections c) @
      (case peer c of None \<Rightarrow> [] | Some p \<Rightarrow> [PeerDestroy]))"

text \<open>\<open>on(events)\<close>: \<^verbatim>\<open>{ ...this.events, ...events }\<close>, a handler given replaces the old one.\<close>

definition on_events :: "WebRTCConnection \<Rightarrow> ConnectionEventHandlers \<Rightarrow> WebRTCConnection" where
  "on_events c evs =
     c\<lparr>events := \<lparr>has_onConnect = (has_onConnect (events c) \<or> has_onConnect evs),
                   has_onDisconnect = (has_onDisconnect (events c) \<or> has_onDisconnect evs),
                   has_onMessage = (has_onMessage (events c) \<or> has_onMessage evs),
                   has_onError = (has_onError (events c) \<or> has_onError evs)\<rparr>\<rparr>"

definition getState :: "WebRTCConnection \<Rightarrow> ConnectionState" where
  "getState c = state c"

definition getConnectedPeers :: "WebRTCConnection \<Rightarrow> string list" where
  "getConnectedPeers c = map fst (connections c)"

text \<open>
  What PeerJS can deliver to the listeners of a connection manager, and the listener
  that runs.
\<close>

datatype transport_event =
    Peer_open string
  | Peer_error
  | Peer_connection DataConnection
  | Conn_open_outbound DataConnection
  | Conn_open_inbound DataConnection
  | Conn_error string
  | Conn_data string js_data
  | Conn_close string

fun listener :: "WebRTCConnection \<Rightarrow> transport_event \<Rightarrow> WebRTCConnection \<times> effect list" where
  "listener c (Peer_open pid) = peer_on_open c pid"
| "listener c Peer_error = peer_on_error c"
| "listener c (Peer_connection conn) = handleIncomingConnection c conn"
| "listener c (Conn_open_outbound conn) = conn_on_open_outbound c conn"
| "listener c (Conn_open_inbound conn) = conn_on_open_inbound c conn"
| "listener c (Conn_error remotePeerId) = conn_on_error c remotePeerId"
| "listener c (Conn_data remotePeerId data) = conn_on_data c remotePeerId data"
| "listener c (Conn_close remotePeerId) = conn_on_close c remotePeerId"

text \<open>The public methods that change the connection manager or act on its channels.\<close>

datatype conn_call =
    Initialize bool bool
  | Connect string
  | SendMessage string js_data
  | Broadcast js_data
  | DisconnectFrom string
  | Disconnect
  | On ConnectionEventHandlers

fun method_call :: "WebRTCConnection \<Rightarrow> conn_call \<Rightarrow> WebRTCConnection \<times> effect list" where
  "method_call c (Initialize ctor_throws cthrows) = initialize c ctor_throws cthrows"
| "method_call c (Connect remotePeerId) = connect c remotePeerId"
| "method_call c (SendMessage peerId m) = (c, snd (conn_sendMessage c peerId m))"
| "method_call c (Broadcast m) = (c, snd (broadcast c m))"
| "method_call c (DisconnectFrom peerId) = disconnectFrom c peerId"
| "method_call c Disconnect = disconnect c"
| "method_call c (On evs) = (on_events c evs, [])"

text \<open>A session of a connection manager: calls and events in any order.\<close>

datatype conn_action = Call conn_call | Event transport_event

fun conn_step :: "WebRTCConnection \<Rightarrow> conn_action \<Rightarrow> WebRTCConnection \<times> effect list" where
  "conn_step c (Call m) = method_call c m"
| "conn_step c (Event ev) = listener c ev"

fun conn_run :: "WebRTCConnection \<Rightarrow> conn_action list \<Rightarrow> WebRTCConnection" where
  "conn_run c [] = c"
| "conn_run c (a # as) = conn_run (fst (conn_step c a)) as"

section \<open>The room: class Room\<close>

text \<open>
  \<open>RoomOptions\<close>: the identifiers, and for each optional callback whether it is given.
\<close>

record RoomOptions =
  opt_roomId :: string
  opt_userId :: string
  opt_username :: string
  cb_onJoin :: bool
  cb_onLeave :: bool
  cb_onMessage :: bool
  cb_onError :: bool

text \<open>
  A value of the \<open>users\<close> map is a reference to an object: either the object
  \<open>this.userInfo\<close> itself, which \<open>join\<close> mutates, or an object received from a peer,
  which nothing mutates.
\<close>

datatype user_ref = OwnUserInfo | UserObject UserInfo

text \<open>Where the asynchronous function \<open>join\<close> is suspended, if it is.\<close>

datatype join_stage = NotJoining | AwaitInitialize | AwaitConnect string

record Room =
  connection :: WebRTCConnection
  roomId :: string
  userInfo :: UserInfo
  users :: "(string \<times> user_ref) list"
  options :: RoomOptions
  messageIdCounter :: nat
  join_stage :: join_stage

text \<open>
  The constructor: the local user is put into the empty \<open>users\<close> map, the connection
  manager is created, and \<open>setupConnectionEvents\<close> registers all four handlers.
\<close>

definition new_Room :: "RoomOptions \<Rightarrow> Room" where
  "new_Room opts =
     \<lparr>connection =
        on_events (new_WebRTCConnection (opt_userId opts))
          \<lparr>has_onConnect = True, has_onDisconnect = True,
           has_onMessage = True, has_onError = True\<rparr>,
      roomId = opt_roomId opts,
      userInfo = \<lparr>user_id = opt_userId opts, username = opt_username opts\<rparr>,
      users = [(opt_userId opts, OwnUserInfo)],
      options = opts,
      messageIdCounter = 0,
      join_stage = NotJoining\<rparr>"

definition deref :: "Room \<Rightarrow> user_ref \<Rightarrow> UserInfo" where
  "deref r v = (case v of OwnUserInfo \<Rightarrow> userInfo r | UserObject u \<Rightarrow> u)"

definition getUsers :: "Room \<Rightarrow> UserInfo list" where
  "getUsers r = map (\<lambda>(k, v). deref r v) (users r)"

definition hasUser :: "Room \<Rightarrow> string \<Rightarrow> bool" where
  "hasUser r k = (map_of (users r) k \<noteq> None)"

definition getConnectionState :: "Room \<Rightarrow> ConnectionState" where
  "getConnectionState r = getState (connection r)"

text \<open>The membership mapping read as \<open>this.users.get(k)\<close>.\<close>

definition users_get :: "Room \<Rightarrow> string \<Rightarrow> UserInfo option" where
  "users_get r k = map_option (deref r) (map_of (users r) k)"

subsection \<open>Sending\<close>

text \<open>\<open>sendJoinMessage(targetPeerId?)\<close>: to the target when it is truthy, to all otherwise.\<close>

definition sendJoinMessage :: "Room \<Rightarrow> string option \<Rightarrow> effect list" where
  "sendJoinMessage r targetPeerId =
     (case targetPeerId of
        None \<Rightarrow> snd (broadcast (connection r) (JoinMessage (userInfo r)))
      | Some t \<Rightarrow>
          if t \<noteq> [] then snd (conn_sendMessage (connection r) t (JoinMessage (userInfo r)))
          else snd (broadcast (connection r) (JoinMessage (userInfo r))))"

definition broadcastJoinMessage :: "Room \<Rightarrow> UserInfo \<Rightarrow> effect list" where
  "broadcastJoinMessage r user =
     (if user_id user = user_id (userInfo r) then []
      else snd (broadcast (connection r) (JoinMessage user)))"

definition broadcastLeaveMessage :: "Room \<Rightarrow> string \<Rightarrow> effect list" where
  "broadcastLeaveMessage r uid = snd (broadcast (connection r) (LeaveMessage uid))"

definition sendUserList :: "Room \<Rightarrow> string \<Rightarrow> effect list" where
  "sendUserList r targetPeerId =
     snd (conn_sendMessage (connection r) targetPeerId (UserListMessage (getUsers r)))"

subsection \<open>The handlers registered by \<open>setupConnectionEvents\<close>\<close>

definition onConnect :: "Room \<Rightarrow> string \<Rightarrow> Room \<times> effect list" where
  "onConnect r peerId =
     (r, [ConsoleLog] @ sendJoinMessage r (Some peerId) @ sendUserList r peerId)"

definition onDisconnect :: "Room \<Rightarrow> string \<Rightarrow> Room \<times> effect list" where
  "onDisconnect r peerId =
     (if hasUser r peerId
      then (let r' = r\<lparr>users := AList.delete peerId (users r)\<rparr> in
            (r', [ConsoleLog] @ optional_call (cb_onLeave (options r)) (OnLeave peerId) @
                 broadcastLeaveMessage r' peerId))
      else (r, [ConsoleLog]))"

definition onError :: "Room \<Rightarrow> Room \<times> effect list" where
  "onError r = (r, [ConsoleError] @ optional_call (cb_onError (options r)) OnError)"

subsection \<open>The message handlers\<close>

text \<open>
  \<open>handleJoinMessage\<close>: reading \<open>user.id\<close> of a message without a \<open>user\<close> field throws a
  \<open>TypeError\<close> before anything is changed.
\<close>

definition handleJoinMessage :: "Room \<Rightarrow> js_object \<Rightarrow> string \<Rightarrow> Room \<times> effect list" where
  "handleJoinMessage r message fromPeerId =
     (case user_field message of
        None \<Rightarrow> (r, [ThrowTypeError])
      | Some user \<Rightarrow>
          (let r' = r\<lparr>users := AList.update (user_id user) (UserObject user) (users r)\<rparr> in
           (r', optional_call (cb_onJoin (options r)) (OnJoin (user_id user) (username user)) @
                broadcastJoinMessage r' user)))"

text \<open>\<open>handleLeaveMessage\<close>: \<open>this.users.has(undefined)\<close> is false.\<close>

definition handleLeaveMessage :: "Room \<Rightarrow> js_object \<Rightarrow> Room \<times> effect list" where
  "handleLeaveMessage r message =
     (case userId_field message of
        None \<Rightarrow> (r, [])
      | Some uid \<Rightarrow>
          if hasUser r uid
          then (r\<lparr>users := AList.delete uid (users r)\<rparr>,
                optional_call (cb_onLeave (options r)) (OnLeave uid))
          else (r, []))"

definition handleChatMessage :: "Room \<Rightarrow> js_object \<Rightarrow> string \<Rightarrow> Room \<times> effect list" where
  "handleChatMessage r message fromPeerId =
     (r, optional_call (cb_onMessage (options r)) (OnMessage (message_field message) fromPeerId))"

text \<open>\<open>handleUserListMessage\<close>: the body of \<open>users.forEach\<close>, then the loop.\<close>

fun userList_forEach :: "Room \<Rightarrow> UserInfo list \<Rightarrow> Room \<times> effect list" where
  "userList_forEach r [] = (r, [])"
| "userList_forEach r (user # rest) =
     (if \<not> hasUser r (user_id user)
      then (let r' = r\<lparr>users := AList.update (user_id user) (UserObject user) (users r)\<rparr>;
                (r'', es) = userList_forEach r' rest
            in (r'', optional_call (cb_onJoin (options r)) (OnJoin (user_id user) (username user)) @ es))
      else userList_forEach r rest)"

definition handleUserListMessage :: "Room \<Rightarrow> js_object \<Rightarrow> Room \<times> effect list" where
  "handleUserListMessage r message =
     (case users_field message of
        None \<Rightarrow> (r, [ThrowTypeError])
      | Some us \<Rightarrow> userList_forEach r us)"

text \<open>
  \<open>handleRoomMessage\<close>: \<^verbatim>\<open>!data || !data.type\<close> holds of every primitive (a truthy
  primitive has no \<open>type\<close> property) and of an object whose \<open>type\<close> is falsy; the
  \<open>switch\<close> compares \<open>type\<close> with the four strings.
\<close>

definition handleRoomMessage :: "Room \<Rightarrow> js_data \<Rightarrow> string \<Rightarrow> Room \<times> effect list" where
  "handleRoomMessage r data fromPeerId =
     (case data of
        JPrimitive p \<Rightarrow> (r, [ConsoleError])
      | JObject message \<Rightarrow>
          if \<not> truthy (type_field message) then (r, [ConsoleError])
          else if type_field message = JStr ''JOIN'' then handleJoinMessage r message fromPeerId
          else if type_field message = JStr ''LEAVE'' then handleLeaveMessage r message
          else if type_field message = JStr ''CHAT'' then handleChatMessage r message fromPeerId
          else if type_field message = JStr ''USER_LIST'' then handleUserListMessage r message
          else (r, [ConsoleWarn]))"

subsection \<open>\<open>join\<close>, \<open>leave\<close>, \<open>sendMessage\<close>\<close>

text \<open>
  \<open>join\<close> up to its first \<open>await\<close>: \<open>initialize\<close> is called; when it rejects at once the
  \<open>catch\<close> logs and rethrows.
\<close>

definition join :: "Room \<Rightarrow> bool \<Rightarrow> bool \<Rightarrow> Room \<times> effect list" where
  "join r ctor_throws cthrows =
     (let (c, es) = initialize (connection r) ctor_throws cthrows in
      if Settle InitializeRejected \<in> set es
      then (r\<lparr>connection := c, join_stage := NotJoining\<rparr>, es @ [ConsoleError, JoinRejected])
      else (r\<lparr>connection := c, join_stage := AwaitInitialize\<rparr>, es))"

text \<open>
  \<open>join\<close> after \<open>initialize\<close> has resolved with \<open>peerId\<close>: the local entry is re-keyed when
  the identity differs, and the room's creator is connected to when it is someone else.
\<close>

definition join_resume :: "Room \<Rightarrow> string \<Rightarrow> Room \<times> effect list" where
  "join_resume r peerId =
     (let r1 = (if peerId \<noteq> user_id (userInfo r)
                then r\<lparr>userInfo := (userInfo r)\<lparr>user_id := peerId\<rparr>,
                       users := AList.update peerId OwnUserInfo
                                  (AList.delete (opt_userId (options r)) (users r))\<rparr>
                else r);
          roomPeerId = roomId r1
      in if roomPeerId \<noteq> [] \<and> roomPeerId \<noteq> peerId
         then (let (c, es) = connect (connection r1) roomPeerId in
               if Settle ConnectRejected \<in> set es
               then (r1\<lparr>connection := c, join_stage := NotJoining\<rparr>,
                     es @ [ConsoleError, JoinRejected])
               else (r1\<lparr>connection := c, join_stage := AwaitConnect peerId\<rparr>, es))
         else (r1\<lparr>join_stage := NotJoining\<rparr>, [JoinResolved peerId]))"

text \<open>A promise settles: \<open>join\<close> goes on if it is waiting for that promise.\<close>

fun settle_join :: "Room \<Rightarrow> join_stage \<Rightarrow> settle \<Rightarrow> Room \<times> effect list" where
  "settle_join r AwaitInitialize (InitializeResolved peerId) = join_resume r peerId"
| "settle_join r AwaitInitialize InitializeRejected =
     (r\<lparr>join_stage := NotJoining\<rparr>, [ConsoleError, JoinRejected])"
| "settle_join r (AwaitConnect peerId) ConnectResolved =
     (r\<lparr>join_stage := NotJoining\<rparr>, [JoinResolved peerId])"
| "settle_join r (AwaitConnect peerId) ConnectRejected =
     (r\<lparr>join_stage := NotJoining\<rparr>, [ConsoleError, JoinRejected])"
| "settle_join r stage s = (r, [])"

definition leave :: "Room \<Rightarrow> Room \<times> effect list" where
  "leave r =
     (let (c, es) = disconnect (connection r) in (r\<lparr>connection := c, users := []\<rparr>, es))"

text \<open>
  \<^verbatim>\<open>++this.messageIdCounter\<close> on a JavaScript number, a double. Below \<open>2^53\<close> the sum is
  exact. At \<open>2^53\<close> the sum \<open>2^53 + 1\<close> is no double and rounds back to \<open>2^53\<close>: the counter
  stays there. Counting from 0, these are all the values the counter takes.
\<close>

definition js_increment :: "nat \<Rightarrow> nat" where
  "js_increment n = (if n < 2 ^ 53 then n + 1 else n)"

definition getNextMessageId :: "Room \<Rightarrow> Room \<times> nat" where
  "getNextMessageId r =
     (r\<lparr>messageIdCounter := js_increment (messageIdCounter r)\<rparr>,
      js_increment (messageIdCounter r))"

text \<open>\<open>sendMessage(content)\<close>; \<open>now\<close> is the value of \<open>Date.now()\<close>.\<close>

definition sendMessage :: "Room \<Rightarrow> string \<Rightarrow> int \<Rightarrow> Room \<times> Message \<times> effect list" where
  "sendMessage r content' now =
     (let (r', n) = getNextMessageId r;
          message = \<lparr>msg_id = n, sender = username (userInfo r'), content = content',
                     timestamp = now\<rparr>
      in (r', message, snd (broadcast (connection r') (ChatMessage message))))"

subsection \<open>A room in its environment\<close>

text \<open>
  What the connection manager hands to the room: a handler call runs the room's handler,
  a settled promise resumes \<open>join\<close>, every other action is the room's own.
\<close>

fun room_deliver :: "Room \<Rightarrow> effect \<Rightarrow> Room \<times> effect list" where
  "room_deliver r (Handler (HConnect peerId)) = onConnect r peerId"
| "room_deliver r (Handler (HDisconnect peerId)) = onDisconnect r peerId"
| "room_deliver r (Handler (HMessage data fromPeerId)) = handleRoomMessage r data fromPeerId"
| "room_deliver r (Handler HError) = onError r"
| "room_deliver r (Settle s) = settle_join r (join_stage r) s"
| "room_deliver r e = (r, [e])"

fun dispatch :: "Room \<Rightarrow> effect list \<Rightarrow> Room \<times> effect list" where
  "dispatch r [] = (r, [])"
| "dispatch r (e # es) =
     (let (r1, out1) = room_deliver r e; (r2, out2) = dispatch r1 es in (r2, out1 @ out2))"

text \<open>
  The life of a room: calls of its public methods and events of the transport, in any
  order. The arguments of \<open>Join\<close> are those of \<open>initialize\<close>; those of \<open>SendChat\<close> are the
  content and the clock. An event may arrive in any state: the runs of the model include
  those PeerJS can produce, and no event is ruled out for want of a registered listener.
\<close>

datatype room_action =
    Join bool bool
  | Leave
  | SendChat string int
  | Transport transport_event

fun room_step :: "Room \<Rightarrow> room_action \<Rightarrow> Room \<times> effect list" where
  "room_step r (Join ctor_throws cthrows) = join r ctor_throws cthrows"
| "room_step r Leave = leave r"
| "room_step r (SendChat content' now) =
     (let (r', message, es) = sendMessage r content' now in (r', es))"
| "room_step r (Transport ev) =
     (let (c, es) = listener (connection r) ev in dispatch (r\<lparr>connection := c\<rparr>) es)"

fun room_run :: "Room \<Rightarrow> room_action list \<Rightarrow> Room" where
  "room_run r [] = r"
| "room_run r (a # as) = room_run (fst (room_step r a)) as"

subsection \<open>Notions used to state the properties\<close>

text \<open>The actions after which the connection manager is in a new session or in none.\<close>

fun ends_session :: "conn_action \<Rightarrow> bool" where
  "ends_session (Call (Initialize ctor_throws cthrows)) = True"
| "ends_session (Call Disconnect) = True"
| "ends_session (Event (Peer_open pid)) = True"
| "ends_session a = False"

fun is_SendChat :: "room_action \<Rightarrow> bool" where
  "is_SendChat (SendChat content' now) = True"
| "is_SendChat a = False"

text \<open>
  The actions that take the entry of the local identity out of \<open>users\<close>: \<open>leave\<close>, the
  close of a channel keyed by the local identity, and a \<open>LEAVE\<close> message that names it.
\<close>

fun names_local :: "Room \<Rightarrow> room_action \<Rightarrow> bool" where
  "names_local r Leave = True"
| "names_local r (Transport (Conn_close remotePeerId)) = (remotePeerId = user_id (userInfo r))"
| "names_local r (Transport (Conn_data remotePeerId (JObject message))) =
     (type_field message = JStr ''LEAVE'' \<and> userId_field message = Some (user_id (userInfo r)))"
| "names_local r a = False"

fun spares_local :: "Room \<Rightarrow> room_action list \<Rightarrow> bool" where
  "spares_local r [] = True"
| "spares_local r (a # as) = (\<not> names_local r a \<and> spares_local (fst (room_step r a)) as)"

text \<open>
  Announcements of members: a \<open>JOIN\<close> message announces its user, a \<open>USER_LIST\<close> message
  those it lists. \<open>receive\<close> hands messages, each with the peer it came from, to
  \<open>handleRoomMessage\<close> one after the other.
\<close>

datatype announcement = Announce_JOIN UserInfo | Announce_USER_LIST "UserInfo list"

fun frame_of :: "announcement \<Rightarrow> js_data" where
  "frame_of (Announce_JOIN u) = JoinMessage u"
| "frame_of (Announce_USER_LIST us) = UserListMessage us"

fun announced :: "announcement \<Rightarrow> UserInfo set" where
  "announced (Announce_JOIN u) = {u}"
| "announced (Announce_USER_LIST us) = set us"

definition announced_pairs :: "(string \<times> announcement) list \<Rightarrow> (string \<times> UserInfo) set" where
  "announced_pairs fs = (\<Union>(p, a) \<in> set fs. (\<lambda>u. (user_id u, u)) ` announced a)"

fun receive :: "Room \<Rightarrow> (string \<times> announcement) list \<Rightarrow> Room" where
  "receive r [] = r"
| "receive r ((fromPeerId, a) # fs) =
     receive (fst (handleRoomMessage r (frame_of a) fromPeerId)) fs"

text \<open>
  The users of a list that \<open>handleUserListMessage\<close> inserts when the keys of \<open>users\<close>
  are \<open>ks\<close>: those whose id is neither a key nor listed earlier.
\<close>

fun fresh_users :: "string list \<Rightarrow> UserInfo list \<Rightarrow> UserInfo list" where
  "fresh_users ks [] = []"
| "fresh_users ks (u # us) =
     (if user_id u \<in> set ks then fresh_users ks us
      else u # fresh_users (ks @ [user_id u]) us)"

section \<open>Acquiring the identity: the effect of \<open>chat.tsx\<close> that sets up PeerJS\<close>

text \<open>
  The error object of PeerJS as the handler reads it: \<open>err.type\<close> and \<open>err.message\<close>,
  which may be missing.
\<close>

record PeerError =
  err_type :: string
  err_message :: "string option"

text \<open>
  The texts shown to the user, by what they say. \<open>CreateFailed\<close> carries
  \<^verbatim>\<open>err.type || err.message\<close>, none when both are falsy.
\<close>

datatype error_text =
    RoomNotFound
  | SignalingDisconnected
  | NetworkProblem
  | IdStillTaken
  | CreateFailed "string option"
  | SignalingUnreachable
  | InitializeFailed

datatype details_text =
    NoDetails
  | CheckingConnection
  | Initializing
  | RoomGone
  | Interrupted
  | NetworkAbnormal
  | IdConflictRetrying nat nat
  | CannotCreateUnique
  | ConnectionAbnormal

datatype chat_effect =
    LogError
  | LogInfo
  | SetTimeout_initializePeer nat
  | CreatePeer
  | DestroyPeer

text \<open>
  The variables of one run of the effect that the handler touches: \<open>retryCount\<close>, declared
  in the effect and so set to 0 once per run, the component state it sets, and whether
  the \<open>peer\<close> the closure captured is set.
\<close>

record chat_state =
  retryCount :: nat
  connectionError :: "error_text option"
  connectionDetails :: details_text
  isConnecting :: bool
  captured_peer :: bool

definition MAX_RETRIES :: nat where
  "MAX_RETRIES = 3"

definition effect_start :: "bool \<Rightarrow> chat_state" where
  "effect_start p = \<lparr>retryCount = 0, connectionError = None, connectionDetails = NoDetails,
     isConnecting = True, captured_peer = p\<rparr>"

text \<open>\<^verbatim>\<open>err.message && err.message.includes('is taken')\<close>\<close>

definition message_is_taken :: "PeerError \<Rightarrow> bool" where
  "message_is_taken err =
     (case err_message err of None \<Rightarrow> False | Some msg \<Rightarrow> msg \<noteq> [] \<and> sublist ''is taken'' msg)"

text \<open>The listener \<^verbatim>\<open>newPeer.on('error', ...)\<close>.\<close>

definition peer_error_handler :: "chat_state \<Rightarrow> PeerError \<Rightarrow> chat_state \<times> chat_effect list" where
  "peer_error_handler st err =
     (if err_type err = ''peer-unavailable''
      then (st\<lparr>connectionError := Some RoomNotFound, connectionDetails := RoomGone,
               isConnecting := False\<rparr>, [LogError])
      else if err_type err = ''disconnected''
      then (st\<lparr>connectionError := Some SignalingDisconnected, connectionDetails := Interrupted,
               isConnecting := False\<rparr>, [LogError])
      else if err_type err = ''network''
      then (st\<lparr>connectionError := Some NetworkProblem, connectionDetails := NetworkAbnormal,
               isConnecting := False\<rparr>, [LogError])
      else if err_type err = ''server-error'' \<or> message_is_taken err
      then (if retryCount st < MAX_RETRIES
            then (st\<lparr>connectionDetails := IdConflictRetrying (retryCount st + 1) MAX_RETRIES,
                     retryCount := retryCount st + 1\<rparr>,
                  [LogError, LogInfo, SetTimeout_initializePeer 1000])
            else (st\<lparr>connectionError := Some IdStillTaken,
                     connectionDetails := CannotCreateUnique, isConnecting := False\<rparr>,
                  [LogError]))
      else (st\<lparr>connectionError :=
                 Some (CreateFailed
                   (if err_type err \<noteq> [] then Some (err_type err)
                    else case err_message err of None \<Rightarrow> None
                         | Some msg \<Rightarrow> if msg \<noteq> [] then Some msg else None)),
               connectionDetails := ConnectionAbnormal, isConnecting := False\<rparr>, [LogError]))"

text \<open>
  \<open>initializePeer\<close> up to the construction of the \<open>Peer\<close>; \<open>serverAvailable\<close> is the
  result of the probe \<open>checkPeerJSServer\<close>, \<open>ctor_throws\<close> whether the constructor throws.
\<close>

definition initializePeer :: "chat_state \<Rightarrow> bool \<Rightarrow> bool \<Rightarrow> chat_state \<times> chat_effect list" where
  "initializePeer st serverAvailable ctor_throws =
     (let st1 = st\<lparr>isConnecting := True, connectionError := None,
                    connectionDetails := CheckingConnection\<rparr>;
          es1 = (if captured_peer st then [DestroyPeer] else [])
      in if \<not> serverAvailable
         then (st1\<lparr>connectionError := Some SignalingUnreachable, isConnecting := False\<rparr>, es1)
         else if ctor_throws
         then (st1\<lparr>connectionDetails := Initializing, connectionError := Some InitializeFailed,
                   isConnecting := False\<rparr>, es1 @ [LogError])
         else (st1\<lparr>connectionDetails := Initializing\<rparr>, es1 @ [CreatePeer]))"

text \<open>
  One run of the effect: the timer set by the handler fires and runs \<open>initializePeer\<close>, or
  a \<open>Peer\<close> reports an error.
\<close>

datatype chat_event = Timer_fires bool bool | Peer_fails PeerError

fun chat_step :: "chat_state \<Rightarrow> chat_event \<Rightarrow> chat_state \<times> chat_effect list" where
  "chat_step st (Timer_fires serverAvailable ctor_throws) =
     initializePeer st serverAvailable ctor_throws"
| "chat_step st (Peer_fails err) = peer_error_handler st err"

fun chat_run :: "chat_state \<Rightarrow> chat_event list \<Rightarrow> chat_state \<times> chat_effect list" where
  "chat_run st [] = (st, [])"
| "chat_run st (ev # evs) =
     (let (st1, es1) = chat_step st ev; (st2, es2) = chat_run st1 evs in (st2, es1 @ es2))"

text \<open>The condition under which the handler treats an error as a taken identity.\<close>

definition identity_taken :: "PeerError \<Rightarrow> bool" where
  "identity_taken err =
     (err_type err \<noteq> ''peer-unavailable'' \<and> err_type err \<noteq> ''disconnected'' \<and>
      err_type err \<noteq> ''network'' \<and> (err_type err = ''server-error'' \<or> message_is_taken err))"

text \<open>\<open>n\<close> failures with a taken identity in a row, each retry reaching a new \<open>Peer\<close>.\<close>

fun taken_in_a_row :: "nat \<Rightarrow> PeerError \<Rightarrow> chat_event list" where
  "taken_in_a_row 0 err = []"
| "taken_in_a_row (Suc n) err = Peer_fails err # Timer_fires True False # taken_in_a_row n err"

definition retries_scheduled :: "chat_effect list \<Rightarrow> nat" where
  "retries_scheduled es = length (filter (\<lambda>e. e = SetTimeout_initializePeer 1000) es)"

section \<open>Properties of the connection manager\<close>

subsection \<open>What \<open>broadcast\<close> delivers\<close>

lemma broadcast_each_delivered:
  "filter (\<lambda>e. e \<noteq> ConsoleError) (broadcast_each cs m) =
   map (\<lambda>(k, conn). Send k m) (filter (\<lambda>(k, conn). \<not> send_throws conn) cs)"
  by (induction cs m rule: broadcast_each.induct) auto

lemma broadcast_each_failed:
  "length (filter (\<lambda>e. e = ConsoleError) (broadcast_each cs m)) =
   length (filter (\<lambda>(k, conn). send_throws conn) cs)"
  by (induction cs m rule: broadcast_each.induct) auto

lemma broadcast_each_length: "length (broadcast_each cs m) = length cs"
  by (induction cs m rule: broadcast_each.induct) auto



text \<open>
  C8, as the code has it. \<open>sendMessage\<close> returns a boolean: true exactly when the
  channel exists and its \<open>send\<close> did not throw, in which case the payload was sent, and
  false with a console error otherwise. \<open>broadcast\<close> returns no value at all; it tries
  every channel of the map once, a channel whose \<open>send\<close> throws costs one console error
  and nothing else, and every other channel is sent the payload, in the order of the map.
  Neither function throws: both are total and their only actions are \<open>Send\<close> and
  \<open>ConsoleError\<close>.
\<close>

theorem send_and_broadcast_best_effort:
  "conn_sendMessage c peerId m =
     (if (case map_of (connections c) peerId of None \<Rightarrow> False | Some conn \<Rightarrow> \<not> send_throws conn)
      then (True, [Send peerId m]) else (False, [ConsoleError])) \<and>
   fst (broadcast c m) = () \<and>
   length (snd (broadcast c m)) = length (connections c) \<and>
   filter (\<lambda>e. e \<noteq> ConsoleError) (snd (broadcast c m)) =
     map (\<lambda>(k, conn). Send k m) (filter (\<lambda>(k, conn). \<not> send_throws conn) (connections c)) \<and>
   length (filter (\<lambda>e. e = ConsoleError) (snd (broadcast c m))) =
     length (filter (\<lambda>(k, conn). send_throws conn) (connections c))"
  by (simp add: conn_sendMessage_def broadcast_def broadcast_each_delivered
      broadcast_each_failed broadcast_each_length split: option.splits)

text \<open>
  C8, as the specification has it, fails: \<open>broadcast\<close> gives no result per channel. With
  a channel to B whose \<open>send\<close> throws and a healthy channel to C, \<open>broadcast\<close> returns \<open>()\<close>,
  the same value it returns when both channels are healthy; the failure of B shows only as
  a console error.
\<close>

theorem broadcast_returns_no_result_per_channel:
  "broadcast
     ((new_WebRTCConnection ''A'')
        \<lparr>connections := [(''B'', \<lparr>conn_peer = ''B'', send_throws = True\<rparr>),
                         (''C'', \<lparr>conn_peer = ''C'', send_throws = False\<rparr>)]\<rparr>)
     (LeaveMessage ''D'')
   = ((), [ConsoleError, Send ''C'' (LeaveMessage ''D'')]) \<and>
   fst (broadcast
     ((new_WebRTCConnection ''A'')
        \<lparr>connections := [(''B'', \<lparr>conn_peer = ''B'', send_throws = True\<rparr>),
                         (''C'', \<lparr>conn_peer = ''C'', send_throws = False\<rparr>)]\<rparr>)
     (LeaveMessage ''D''))
   = fst (broadcast
     ((new_WebRTCConnection ''A'')
        \<lparr>connections := [(''B'', \<lparr>conn_peer = ''B'', send_throws = False\<rparr>),
                         (''C'', \<lparr>conn_peer = ''C'', send_throws = False\<rparr>)]\<rparr>)
     (LeaveMessage ''D''))"
  by (simp add: broadcast_def new_WebRTCConnection_def)

text \<open>
  C7. \<open>disconnect\<close> closes every channel of the map, destroys the \<open>Peer\<close> (which releases
  the local identity) when there is one, and leaves no channel, no \<open>Peer\<close> and the state
  \<open>DISCONNECTED\<close>. A second call right after the first changes nothing and does nothing:
  no channel is closed again, no \<open>Peer\<close> is destroyed again, nothing is sent. Likewise
  \<open>disconnectFrom\<close> on a peer without a channel changes nothing and does nothing, as does
  a second \<open>disconnectFrom\<close> on the same peer.
\<close>

theorem disconnect_idempotent:
  "snd (disconnect c) =
     map (\<lambda>(peerId, conn). Close peerId) (connections c) @
     (if peer c = None then [] else [PeerDestroy]) \<and>
   connections (fst (disconnect c)) = [] \<and>
   peer (fst (disconnect c)) = None \<and>
   getState (fst (disconnect c)) = DISCONNECTED \<and>
   disconnect (fst (disconnect c)) = (fst (disconnect c), []) \<and>
   (map_of (connections c) peerId = None \<longrightarrow> disconnectFrom c peerId = (c, [])) \<and>
   disconnectFrom (fst (disconnectFrom c peerId)) peerId = (fst (disconnectFrom c peerId), [])"
  by (simp add: disconnect_def disconnectFrom_def getState_def delete_conv' split: option.splits)

text \<open>The same at a connection manager with a \<open>Peer\<close> and a channel to B; C has no channel.\<close>

theorem disconnect_idempotent_witness:
  "map_of (connections ((new_WebRTCConnection ''A'')
      \<lparr>connections := [(''B'', \<lparr>conn_peer = ''B'', send_throws = False\<rparr>)],
       peer := Some \<lparr>requested_id = Some ''A'', connect_throws = False\<rparr>,
       state := CONNECTED\<rparr>)) ''C'' = None \<and>
   snd (disconnect ((new_WebRTCConnection ''A'')
      \<lparr>connections := [(''B'', \<lparr>conn_peer = ''B'', send_throws = False\<rparr>)],
       peer := Some \<lparr>requested_id = Some ''A'', connect_throws = False\<rparr>,
       state := CONNECTED\<rparr>)) = [Close ''B'', PeerDestroy] \<and>
   snd (disconnect (fst (disconnect ((new_WebRTCConnection ''A'')
      \<lparr>connections := [(''B'', \<lparr>conn_peer = ''B'', send_throws = False\<rparr>)],
       peer := Some \<lparr>requested_id = Some ''A'', connect_throws = False\<rparr>,
       state := CONNECTED\<rparr>)))) = [] \<and>
   disconnectFrom ((new_WebRTCConnection ''A'')
      \<lparr>connections := [(''B'', \<lparr>conn_peer = ''B'', send_throws = False\<rparr>)],
       peer := Some \<lparr>requested_id = Some ''A'', connect_throws = False\<rparr>,
       state := CONNECTED\<rparr>) ''C''
   = ((new_WebRTCConnection ''A'')
      \<lparr>connections := [(''B'', \<lparr>conn_peer = ''B'', send_throws = False\<rparr>)],
       peer := Some \<lparr>requested_id = Some ''A'', connect_throws = False\<rparr>,
       state := CONNECTED\<rparr>, [])"
  using disconnect_idempotent
    [of "(new_WebRTCConnection ''A'')
      \<lparr>connections := [(''B'', \<lparr>conn_peer = ''B'', send_throws = False\<rparr>)],
       peer := Some \<lparr>requested_id = Some ''A'', connect_throws = False\<rparr>,
       state := CONNECTED\<rparr>" "''C''"]
  by (simp add: new_WebRTCConnection_def)

subsection \<open>The connection state after \<open>connect\<close>\<close>

lemma conn_step_keeps_connecting:
  "\<not> ends_session a \<Longrightarrow> peer c \<noteq> None \<Longrightarrow> state c = CONNECTING \<Longrightarrow>
     state (fst (conn_step c a)) = CONNECTING \<and> peer (fst (conn_step c a)) \<noteq> None"
proof (cases a)
  case (Call m)
  assume "\<not> ends_session a" "peer c \<noteq> None" "state c = CONNECTING"
  with Call show ?thesis
    by (cases m) (auto simp: connect_def disconnectFrom_def on_events_def split: option.splits)
next
  case (Event ev)
  assume "\<not> ends_session a" "peer c \<noteq> None" "state c = CONNECTING"
  with Event show ?thesis
    by (cases ev) (auto simp: peer_on_error_def handleIncomingConnection_def
        conn_on_open_outbound_def conn_on_open_inbound_def conn_on_error_def conn_on_data_def
        conn_on_close_def)
qed

lemma conn_run_keeps_connecting:
  "list_all (\<lambda>a. \<not> ends_session a) as \<Longrightarrow> peer c \<noteq> None \<Longrightarrow> state c = CONNECTING \<Longrightarrow>
     state (conn_run c as) = CONNECTING \<and> peer (conn_run c as) \<noteq> None"
proof (induction as arbitrary: c)
  case Nil
  then show ?case by simp
next
  case (Cons a as)
  from Cons.prems
  have "state (fst (conn_step c a)) = CONNECTING \<and> peer (fst (conn_step c a)) \<noteq> None"
    using conn_step_keeps_connecting[of a c] by simp
  with Cons.IH[of "fst (conn_step c a)"] Cons.prems show ?case by simp
qed

lemma conn_run_append: "conn_run c (as @ bs) = conn_run (conn_run c as) bs"
  by (induction as arbitrary: c) simp_all

text \<open>
  C10. Let \<open>initialize\<close> have succeeded: the \<open>Peer\<close> exists and the state is \<open>CONNECTED\<close>.
  A call of \<open>connect\<close> then sets the state to \<open>CONNECTING\<close>, and it stays \<open>CONNECTING\<close>
  through every later call and event of the session: further calls of \<open>connect\<close>,
  \<open>sendMessage\<close>, \<open>broadcast\<close>, \<open>disconnectFrom\<close> and \<open>on\<close>, errors of the \<open>Peer\<close>, incoming
  connections, and the \<open>open\<close> (in particular that of the channel just requested),
  \<open>data\<close>, \<open>error\<close> and \<open>close\<close> events of channels. \<open>disconnect\<close> then sets
  \<open>DISCONNECTED\<close>. The session ends with \<open>disconnect\<close> or with a new \<open>initialize\<close>, whose
  \<open>open\<close> event of the signalling layer is the only assignment of \<open>CONNECTED\<close> in the class.
\<close>

theorem connecting_until_disconnect:
  assumes "peer c \<noteq> None" and "getState c = CONNECTED"
    and "list_all (\<lambda>a. \<not> ends_session a) as"
  shows "getState (fst (connect c remoteIdentity)) = CONNECTING \<and>
         getState (conn_run (fst (connect c remoteIdentity)) as) = CONNECTING \<and>
         getState (conn_run (fst (connect c remoteIdentity))
            (Event (Conn_open_outbound conn) # as)) = CONNECTING \<and>
         getState (conn_run (fst (connect c remoteIdentity)) (as @ [Call Disconnect]))
           = DISCONNECTED"
proof -
  let ?c = "fst (connect c remoteIdentity)"
  have c1: "state ?c = CONNECTING \<and> peer ?c \<noteq> None"
    using assms(1) by (auto simp: connect_def split: option.splits)
  have c2: "state (conn_run ?c as) = CONNECTING"
    using conn_run_keeps_connecting[OF assms(3), of ?c] c1 by simp
  have c3: "state (conn_run ?c (Event (Conn_open_outbound conn) # as)) = CONNECTING"
    using conn_run_keeps_connecting[of "Event (Conn_open_outbound conn) # as" ?c] c1 assms(3)
    by simp
  have c4: "state (conn_run ?c (as @ [Call Disconnect])) = DISCONNECTED"
    by (simp add: conn_run_append disconnect_def)
  show ?thesis using c1 c2 c3 c4 by (simp add: getState_def)
qed

text \<open>
  The same at a joiner J: \<open>initialize\<close>, the signalling \<open>open\<close>, then \<open>connect\<close> to the host H,
  whose channel opens and delivers data.
\<close>

theorem connecting_until_disconnect_witness:
  "getState (conn_run (new_WebRTCConnection ''J'')
      [Call (Initialize False False), Event (Peer_open ''J'')]) = CONNECTED \<and>
   getState (conn_run (new_WebRTCConnection ''J'')
      [Call (Initialize False False), Event (Peer_open ''J''), Call (Connect ''H''),
       Event (Conn_open_outbound \<lparr>conn_peer = ''H'', send_throws = False\<rparr>),
       Event (Conn_data ''H'' (JoinMessage \<lparr>user_id = ''H'', username = ''Host''\<rparr>)),
       Call (Broadcast (LeaveMessage ''X''))]) = CONNECTING \<and>
   getState (conn_run (new_WebRTCConnection ''J'')
      [Call (Initialize False False), Event (Peer_open ''J''), Call (Connect ''H''),
       Event (Conn_data ''H'' (JoinMessage \<lparr>user_id = ''H'', username = ''Host''\<rparr>)),
       Call (Broadcast (LeaveMessage ''X'')), Call Disconnect]) = DISCONNECTED"
  using connecting_until_disconnect
    [of "conn_run (new_WebRTCConnection ''J'')
           [Call (Initialize False False), Event (Peer_open ''J'')]"
        "[Event (Conn_data ''H'' (JoinMessage \<lparr>user_id = ''H'', username = ''Host''\<rparr>)),
          Call (Broadcast (LeaveMessage ''X''))]"
        "''H''" "\<lparr>conn_peer = ''H'', send_throws = False\<rparr>"]
  by (simp add: new_WebRTCConnection_def initialize_def peer_on_open_def getState_def Let_def
      connect_def conn_on_open_outbound_def conn_on_data_def broadcast_def)

section \<open>Properties of the room\<close>

lemma dispatch_single: "dispatch r [e] = room_deliver r e"
  by (cases "room_deliver r e") simp

text \<open>
  C9. A payload that is no object with a truthy \<open>type\<close>, or whose \<open>type\<close> is none of
  the four message types, is logged (a console error for the malformed one, a console
  warning for the unknown type) and dropped: the handler calls no callback, sends nothing,
  throws nothing and returns the room as it was. The session goes on as if the payload had
  never arrived.
\<close>

theorem bad_frame_logged_and_dropped:
  assumes "case data of JPrimitive p \<Rightarrow> True
           | JObject message \<Rightarrow> \<not> truthy (type_field message) \<or>
               type_field message \<notin> {JStr ''JOIN'', JStr ''LEAVE'', JStr ''CHAT'', JStr ''USER_LIST''}"
  shows "handleRoomMessage r data fromPeerId =
           (r, [case data of JPrimitive p \<Rightarrow> ConsoleError
                | JObject message \<Rightarrow>
                    if truthy (type_field message) then ConsoleWarn else ConsoleError]) \<and>
         room_run r (Transport (Conn_data fromPeerId data) # rest) = room_run r rest"
proof -
  have h: "handleRoomMessage r data fromPeerId =
           (r, [case data of JPrimitive p \<Rightarrow> ConsoleError
                | JObject message \<Rightarrow>
                    if truthy (type_field message) then ConsoleWarn else ConsoleError])"
    using assms by (auto simp: handleRoomMessage_def split: js_data.splits)
  have "fst (room_step r (Transport (Conn_data fromPeerId data))) = r"
    using h by (simp add: conn_on_data_def dispatch_single)
  then show ?thesis using h by simp
qed

text \<open>The same at a new room, for an unknown type and for a missing type.\<close>

theorem bad_frame_logged_and_dropped_witness:
  "handleRoomMessage
     (new_Room \<lparr>opt_roomId = ''A'', opt_userId = ''A'', opt_username = ''Alice'',
                cb_onJoin = True, cb_onLeave = True, cb_onMessage = True, cb_onError = True\<rparr>)
     (JObject \<lparr>type_field = JStr ''PING'', user_field = None, userId_field = Some ''A'',
               message_field = None, users_field = None\<rparr>) ''B''
   = (new_Room \<lparr>opt_roomId = ''A'', opt_userId = ''A'', opt_username = ''Alice'',
                cb_onJoin = True, cb_onLeave = True, cb_onMessage = True, cb_onError = True\<rparr>,
      [ConsoleWarn]) \<and>
   handleRoomMessage
     (new_Room \<lparr>opt_roomId = ''A'', opt_userId = ''A'', opt_username = ''Alice'',
                cb_onJoin = True, cb_onLeave = True, cb_onMessage = True, cb_onError = True\<rparr>)
     (JObject \<lparr>type_field = JUndefined, user_field = None, userId_field = Some ''A'',
               message_field = None, users_field = None\<rparr>) ''B''
   = (new_Room \<lparr>opt_roomId = ''A'', opt_userId = ''A'', opt_username = ''Alice'',
                cb_onJoin = True, cb_onLeave = True, cb_onMessage = True, cb_onError = True\<rparr>,
      [ConsoleError])"
  using bad_frame_logged_and_dropped
    [of "JObject \<lparr>type_field = JStr ''PING'', user_field = None, userId_field = Some ''A'',
               message_field = None, users_field = None\<rparr>"
        "new_Room \<lparr>opt_roomId = ''A'', opt_userId = ''A'', opt_username = ''Alice'',
                cb_onJoin = True, cb_onLeave = True, cb_onMessage = True, cb_onError = True\<rparr>"
        "''B''" "[]"]
    bad_frame_logged_and_dropped
    [of "JObject \<lparr>type_field = JUndefined, user_field = None, userId_field = Some ''A'',
               message_field = None, users_field = None\<rparr>"
        "new_Room \<lparr>opt_roomId = ''A'', opt_userId = ''A'', opt_username = ''Alice'',
                cb_onJoin = True, cb_onLeave = True, cb_onMessage = True, cb_onError = True\<rparr>"
        "''B''" "[]"]
  by simp

subsection \<open>A channel closes\<close>



subsection \<open>A \<open>JOIN\<close> message arrives\<close>

text \<open>
  What a \<open>JOIN\<close> message does in general: the user is stored under its id, replacing an
  entry that was there; the join callback is called when one was given; and unless the
  user is the local one, the message is sent on every channel of the map.
\<close>

lemma handleRoomMessage_JoinMessage:
  "handleRoomMessage r (JoinMessage user) fromPeerId =
     (r\<lparr>users := AList.update (user_id user) (UserObject user) (users r)\<rparr>,
      optional_call (cb_onJoin (options r)) (OnJoin (user_id user) (username user)) @
      (if user_id user = user_id (userInfo r) then []
       else broadcast_each (connections (connection r)) (JoinMessage user)))"
  by (simp add: handleRoomMessage_def JoinMessage_def handleJoinMessage_def
      broadcastJoinMessage_def broadcast_def Let_def)

text \<open>
  C2 at a concrete room. Alice hosts room A and has open channels to B and C. The \<open>JOIN\<close>
  message of Bob arrives on the channel to B. Bob is stored and the join callback is
  called, and the message is then sent on every channel of the map, the one keyed by
  Bob's own identity included: \<open>broadcastJoinMessage\<close> calls \<open>broadcast\<close>, which leaves
  no channel out.
\<close>

theorem join_rebroadcast_reaches_subject:
  "snd (room_step
     (room_run (new_Room \<lparr>opt_roomId = ''A'', opt_userId = ''A'', opt_username = ''Alice'',
                cb_onJoin = True, cb_onLeave = True, cb_onMessage = True, cb_onError = True\<rparr>)
        [Join False False, Transport (Peer_open ''A''),
         Transport (Peer_connection \<lparr>conn_peer = ''B'', send_throws = False\<rparr>),
         Transport (Conn_open_inbound \<lparr>conn_peer = ''B'', send_throws = False\<rparr>),
         Transport (Peer_connection \<lparr>conn_peer = ''C'', send_throws = False\<rparr>),
         Transport (Conn_open_inbound \<lparr>conn_peer = ''C'', send_throws = False\<rparr>)])
     (Transport (Conn_data ''B'' (JoinMessage \<lparr>user_id = ''B'', username = ''Bob''\<rparr>))))
   = [OnJoin ''B'' ''Bob'',
      Send ''B'' (JoinMessage \<lparr>user_id = ''B'', username = ''Bob''\<rparr>),
      Send ''C'' (JoinMessage \<lparr>user_id = ''B'', username = ''Bob''\<rparr>)]"
  by (simp add: new_Room_def new_WebRTCConnection_def on_events_def join_def initialize_def
      peer_on_open_def join_resume_def handleIncomingConnection_def conn_on_open_inbound_def
      optional_call_def onConnect_def conn_on_data_def handleRoomMessage_def JoinMessage_def
      handleJoinMessage_def broadcastJoinMessage_def broadcast_def Let_def)

subsection \<open>Sequence numbers of chat messages\<close>

lemma userList_forEach_counter:
  "messageIdCounter (fst (userList_forEach r us)) = messageIdCounter r"
  by (induction us arbitrary: r) (simp_all add: Let_def split_beta)

lemma handleRoomMessage_counter:
  "messageIdCounter (fst (handleRoomMessage r data p)) = messageIdCounter r"
  by (simp add: handleRoomMessage_def handleJoinMessage_def handleLeaveMessage_def
      handleChatMessage_def handleUserListMessage_def userList_forEach_counter Let_def
      split: js_data.splits option.splits)

lemma join_resume_counter:
  "messageIdCounter (fst (join_resume r pid)) = messageIdCounter r"
  by (simp add: join_resume_def Let_def split: prod.splits)

lemma settle_join_counter:
  "messageIdCounter (fst (settle_join r st s)) = messageIdCounter r"
  by (cases "(r, st, s)" rule: settle_join.cases) (simp_all add: join_resume_counter)

lemma room_deliver_counter:
  "messageIdCounter (fst (room_deliver r e)) = messageIdCounter r"
  by (cases "(r, e)" rule: room_deliver.cases)
     (simp_all add: onConnect_def onDisconnect_def onError_def handleRoomMessage_counter
        settle_join_counter Let_def)

lemma dispatch_counter:
  "messageIdCounter (fst (dispatch r es)) = messageIdCounter r"
proof (induction es arbitrary: r)
  case Nil
  then show ?case by simp
next
  case (Cons e es)
  have "messageIdCounter (fst (dispatch (fst (room_deliver r e)) es)) = messageIdCounter r"
    using Cons.IH[of "fst (room_deliver r e)"] by (simp add: room_deliver_counter)
  then show ?case by (simp add: split_beta Let_def)
qed

lemma room_step_counter:
  "messageIdCounter (fst (room_step r a)) =
     (if is_SendChat a then js_increment (messageIdCounter r) else messageIdCounter r)"
proof (cases a)
  case (Join x y)
  then show ?thesis by (simp add: join_def Let_def split_beta)
next
  case Leave
  then show ?thesis by (simp add: leave_def split_beta)
next
  case (SendChat c t)
  then show ?thesis by (simp add: sendMessage_def getNextMessageId_def Let_def)
next
  case (Transport ev)
  then show ?thesis by (simp add: split_beta dispatch_counter)
qed

lemma js_increment_min:
  "c \<le> 2 ^ 53 \<Longrightarrow> js_increment c \<le> 2 ^ 53 \<and>
     min (2 ^ 53) (js_increment c + k) = min (2 ^ 53) (c + Suc k)"
  by (simp add: js_increment_def min_def)

lemma room_run_counter:
  "messageIdCounter r \<le> 2 ^ 53 \<Longrightarrow>
   messageIdCounter (room_run r as) =
     min (2 ^ 53) (messageIdCounter r + length (filter is_SendChat as))"
proof (induction as arbitrary: r)
  case Nil
  then show ?case by (simp add: min_def)
next
  case (Cons a as)
  show ?case
  proof (cases "is_SendChat a")
    case True
    have s: "messageIdCounter (fst (room_step r a)) = js_increment (messageIdCounter r)"
      using True by (simp add: room_step_counter)
    have b: "js_increment (messageIdCounter r) \<le> 2 ^ 53"
      and m: "min (2 ^ 53) (js_increment (messageIdCounter r) + length (filter is_SendChat as))
              = min (2 ^ 53) (messageIdCounter r + Suc (length (filter is_SendChat as)))"
      using js_increment_min[OF Cons.prems] by blast+
    have "messageIdCounter (room_run (fst (room_step r a)) as) =
            min (2 ^ 53) (js_increment (messageIdCounter r) + length (filter is_SendChat as))"
      using Cons.IH[of "fst (room_step r a)"] b unfolding s by simp
    then show ?thesis using True m by simp
  next
    case False
    have s: "messageIdCounter (fst (room_step r a)) = messageIdCounter r"
      using False by (simp add: room_step_counter)
    show ?thesis
      using Cons.IH[of "fst (room_step r a)"] Cons.prems False unfolding s by simp
  qed
qed

lemma sendMessage_eq:
  "sendMessage r content' now =
     (r\<lparr>messageIdCounter := js_increment (messageIdCounter r)\<rparr>,
      \<lparr>msg_id = js_increment (messageIdCounter r), sender = username (userInfo r),
       content = content', timestamp = now\<rparr>,
      broadcast_each (connections (connection r))
        (ChatMessage \<lparr>msg_id = js_increment (messageIdCounter r),
           sender = username (userInfo r), content = content', timestamp = now\<rparr>))"
  by (simp add: sendMessage_def getNextMessageId_def Let_def broadcast_def)

text \<open>
  C4, as the code has it. The counter of a new room is 0. \<open>sendMessage\<close> increments it
  and returns the message whose sequence number is the new value, whose sender is the
  local display name and whose timestamp is the clock. The message, wrapped in a \<open>CHAT\<close>
  message, is broadcast: every channel is tried once, each channel whose \<open>send\<close> does not
  throw is sent it, in the order of the map, and each other channel costs a console
  error. No other method and no event touches the counter, \<open>join\<close> and \<open>leave\<close> included:
  after any run of calls and events from a new room, the next call returns the number of
  \<open>sendMessage\<close> calls so far plus one, as long as that is at most \<open>2^53\<close>, where the
  counter of the code stops. So up to \<open>2^53\<close> the n-th call on a room returns n and the
  numbers strictly increase; they never restart within a room, and numbering from 1 comes
  with a newly constructed room only.
\<close>

theorem sendMessage_sequence:
  "messageIdCounter (new_Room opts) = 0 \<and>
   fst (sendMessage r content' now) = r\<lparr>messageIdCounter := js_increment (messageIdCounter r)\<rparr> \<and>
   fst (snd (sendMessage r content' now)) =
     \<lparr>msg_id = js_increment (messageIdCounter r), sender = username (userInfo r),
      content = content', timestamp = now\<rparr> \<and>
   length (snd (snd (sendMessage r content' now))) = length (connections (connection r)) \<and>
   filter (\<lambda>e. e \<noteq> ConsoleError) (snd (snd (sendMessage r content' now))) =
     map (\<lambda>(k, conn). Send k (ChatMessage (fst (snd (sendMessage r content' now)))))
       (filter (\<lambda>(k, conn). \<not> send_throws conn) (connections (connection r))) \<and>
   length (filter (\<lambda>e. e = ConsoleError) (snd (snd (sendMessage r content' now)))) =
     length (filter (\<lambda>(k, conn). send_throws conn) (connections (connection r))) \<and>
   (messageIdCounter r < 2 ^ 53 \<longrightarrow>
      msg_id (fst (snd (sendMessage r content' now))) = messageIdCounter r + 1) \<and>
   (messageIdCounter r \<le> 2 ^ 53 \<longrightarrow>
      messageIdCounter (room_run r as) =
        min (2 ^ 53) (messageIdCounter r + length (filter is_SendChat as))) \<and>
   (length (filter is_SendChat as) < 2 ^ 53 \<longrightarrow>
      msg_id (fst (snd (sendMessage (room_run (new_Room opts) as) content' now))) =
        length (filter is_SendChat as) + 1)"
proof -
  have z: "messageIdCounter (new_Room opts) = 0"
    by (simp add: new_Room_def)
  have n: "length (filter is_SendChat as) < 2 ^ 53 \<Longrightarrow>
      msg_id (fst (snd (sendMessage (room_run (new_Room opts) as) content' now))) =
        length (filter is_SendChat as) + 1"
    using room_run_counter[of "new_Room opts" as] z
    by (simp add: sendMessage_eq js_increment_def)
  show ?thesis
    using z n room_run_counter[of r as]
    by (simp add: sendMessage_eq broadcast_each_length broadcast_each_delivered
        broadcast_each_failed) (simp add: js_increment_def)
qed

text \<open>
  The same at a host with a healthy channel to B and a channel to C whose \<open>send\<close> throws:
  the second message of the session has sequence number 2 and is sent to B.
\<close>

theorem sendMessage_sequence_witness:
  "length (filter is_SendChat
      [Join False False, Transport (Peer_open ''A''),
       Transport (Conn_open_inbound \<lparr>conn_peer = ''B'', send_throws = False\<rparr>),
       Transport (Conn_open_inbound \<lparr>conn_peer = ''C'', send_throws = True\<rparr>),
       SendChat ''hello'' 1000]) < 2 ^ 53 \<and>
   sendMessage
     (room_run (new_Room \<lparr>opt_roomId = ''A'', opt_userId = ''A'', opt_username = ''Alice'',
                cb_onJoin = True, cb_onLeave = True, cb_onMessage = True, cb_onError = True\<rparr>)
        [Join False False, Transport (Peer_open ''A''),
         Transport (Conn_open_inbound \<lparr>conn_peer = ''B'', send_throws = False\<rparr>),
         Transport (Conn_open_inbound \<lparr>conn_peer = ''C'', send_throws = True\<rparr>),
         SendChat ''hello'' 1000])
     ''hi'' 2000
   = ((room_run (new_Room \<lparr>opt_roomId = ''A'', opt_userId = ''A'', opt_username = ''Alice'',
                cb_onJoin = True, cb_onLeave = True, cb_onMessage = True, cb_onError = True\<rparr>)
        [Join False False, Transport (Peer_open ''A''),
         Transport (Conn_open_inbound \<lparr>conn_peer = ''B'', send_throws = False\<rparr>),
         Transport (Conn_open_inbound \<lparr>conn_peer = ''C'', send_throws = True\<rparr>),
         SendChat ''hello'' 1000])\<lparr>messageIdCounter := 2\<rparr>,
      \<lparr>msg_id = 2, sender = ''Alice'', content = ''hi'', timestamp = 2000\<rparr>,
      [Send ''B'' (ChatMessage
         \<lparr>msg_id = 2, sender = ''Alice'', content = ''hi'', timestamp = 2000\<rparr>),
       ConsoleError])"
proof -
  let ?o = "\<lparr>opt_roomId = ''A'', opt_userId = ''A'', opt_username = ''Alice'',
                cb_onJoin = True, cb_onLeave = True, cb_onMessage = True, cb_onError = True\<rparr>"
  let ?as = "[Join False False, Transport (Peer_open ''A''),
       Transport (Conn_open_inbound \<lparr>conn_peer = ''B'', send_throws = False\<rparr>),
       Transport (Conn_open_inbound \<lparr>conn_peer = ''C'', send_throws = True\<rparr>),
       SendChat ''hello'' 1000]"
  let ?r = "room_run (new_Room ?o) ?as"
  have h: "length (filter is_SendChat ?as) < 2 ^ 53" by simp
  have l: "length (filter is_SendChat ?as) = 1" by simp
  have "msg_id (fst (snd (sendMessage ?r ''hi'' 2000))) = length (filter is_SendChat ?as) + 1"
    using h sendMessage_sequence[of ?o ?r "''hi''" 2000 ?as] by blast
  then have i: "msg_id (fst (snd (sendMessage ?r ''hi'' 2000))) = 2"
    unfolding l by (simp only: one_add_one)
  have c: "connections (connection ?r) =
      [(''B'', \<lparr>conn_peer = ''B'', send_throws = False\<rparr>),
       (''C'', \<lparr>conn_peer = ''C'', send_throws = True\<rparr>)]"
    by (simp add: new_Room_def new_WebRTCConnection_def on_events_def join_def initialize_def
      peer_on_open_def join_resume_def conn_on_open_inbound_def optional_call_def onConnect_def
      sendMessage_def getNextMessageId_def broadcast_def Let_def)
  have u: "username (userInfo ?r) = ''Alice''"
    by (simp add: new_Room_def new_WebRTCConnection_def on_events_def join_def initialize_def
      peer_on_open_def join_resume_def conn_on_open_inbound_def optional_call_def onConnect_def
      sendMessage_def getNextMessageId_def broadcast_def Let_def)
  have j: "js_increment (messageIdCounter ?r) = 2"
    using i by (simp only: sendMessage_eq fst_conv snd_conv Message.select_convs)
  have "sendMessage ?r ''hi'' 2000 =
      (?r\<lparr>messageIdCounter := 2\<rparr>,
       \<lparr>msg_id = 2, sender = ''Alice'', content = ''hi'', timestamp = 2000\<rparr>,
       [Send ''B'' (ChatMessage
          \<lparr>msg_id = 2, sender = ''Alice'', content = ''hi'', timestamp = 2000\<rparr>),
        ConsoleError])"
    unfolding sendMessage_eq j c u by simp
  with h show ?thesis by blast
qed

text \<open>
  C4, as the specification has it, fails: \<open>join\<close> does not restart the numbering. Alice
  sends a message, leaves, and joins again; the next message has sequence number 2.
\<close>

theorem join_does_not_restart_numbering:
  "msg_id (fst (snd (sendMessage
      (room_run (new_Room \<lparr>opt_roomId = ''A'', opt_userId = ''A'', opt_username = ''Alice'',
                cb_onJoin = True, cb_onLeave = True, cb_onMessage = True, cb_onError = True\<rparr>)
        [Join False False, Transport (Peer_open ''A''), SendChat ''one'' 1000, Leave,
         Join False False, Transport (Peer_open ''A'')])
      ''two'' 2000))) = 2"
  by (simp add: new_Room_def new_WebRTCConnection_def on_events_def join_def initialize_def
      peer_on_open_def join_resume_def leave_def disconnect_def sendMessage_def
      getNextMessageId_def js_increment_def broadcast_def Let_def)

subsection \<open>The local identity as a member\<close>

lemma userList_forEach_userInfo:
  "userInfo (fst (userList_forEach r us)) = userInfo r"
  by (induction us arbitrary: r) (simp_all add: Let_def split_beta)

lemma userList_forEach_keeps:
  "hasUser r k \<Longrightarrow> hasUser (fst (userList_forEach r us)) k"
proof (induction us arbitrary: r)
  case Nil
  then show ?case by simp
next
  case (Cons u us)
  let ?r' = "r\<lparr>users := AList.update (user_id u) (UserObject u) (users r)\<rparr>"
  have "hasUser ?r' k" using Cons.prems by (simp add: hasUser_def update_conv')
  then have "hasUser (fst (userList_forEach ?r' us)) k" by (rule Cons.IH)
  moreover have "hasUser (fst (userList_forEach r us)) k" using Cons.prems by (rule Cons.IH)
  ultimately show ?case by (simp add: Let_def split_beta)
qed

lemma handleRoomMessage_userInfo:
  "userInfo (fst (handleRoomMessage r data p)) = userInfo r"
  by (simp add: handleRoomMessage_def handleJoinMessage_def handleLeaveMessage_def
      handleChatMessage_def handleUserListMessage_def userList_forEach_userInfo Let_def
      split: js_data.splits option.splits)

lemma handleRoomMessage_keeps:
  assumes "hasUser r k"
    and "\<not> (\<exists>message. data = JObject message \<and> type_field message = JStr ''LEAVE'' \<and>
              userId_field message = Some k)"
  shows "hasUser (fst (handleRoomMessage r data p)) k"
proof (cases data)
  case (JPrimitive x)
  then show ?thesis using assms(1) by (simp add: handleRoomMessage_def)
next
  case (JObject message)
  have j: "hasUser (fst (handleJoinMessage r message p)) k"
    using assms(1)
    by (simp add: handleJoinMessage_def hasUser_def update_conv' Let_def split: option.splits)
  have u: "hasUser (fst (handleUserListMessage r message)) k"
    using assms(1) by (simp add: handleUserListMessage_def userList_forEach_keeps split: option.splits)
  have c: "hasUser (fst (handleChatMessage r message p)) k"
    using assms(1) by (simp add: handleChatMessage_def)
  have l: "type_field message = JStr ''LEAVE'' \<Longrightarrow> hasUser (fst (handleLeaveMessage r message)) k"
    using assms JObject
    by (auto simp: handleLeaveMessage_def hasUser_def delete_conv' split: option.splits)
  show ?thesis
    using JObject assms(1) j u c l by (simp add: handleRoomMessage_def)
qed

lemma join_resume_local:
  "hasUser r (user_id (userInfo r)) \<Longrightarrow>
   hasUser (fst (join_resume r pid)) (user_id (userInfo (fst (join_resume r pid))))"
  by (simp add: join_resume_def hasUser_def update_conv' Let_def split_beta)

lemma settle_join_local:
  "hasUser r (user_id (userInfo r)) \<Longrightarrow>
   hasUser (fst (settle_join r st s)) (user_id (userInfo (fst (settle_join r st s))))"
  by (cases "(r, st, s)" rule: settle_join.cases) (simp_all add: join_resume_local, simp_all add: hasUser_def)

lemma onDisconnect_local:
  "hasUser r (user_id (userInfo r)) \<Longrightarrow> p \<noteq> user_id (userInfo r) \<Longrightarrow>
   hasUser (fst (onDisconnect r p)) (user_id (userInfo (fst (onDisconnect r p))))"
  by (simp add: onDisconnect_def hasUser_def delete_conv' Let_def)

lemma hasUser_connection [simp]: "hasUser (r\<lparr>connection := c\<rparr>) k = hasUser r k"
  by (simp add: hasUser_def)

lemma dispatch_Cons: "dispatch r (e # es) =
   (fst (dispatch (fst (room_deliver r e)) es),
    snd (room_deliver r e) @ snd (dispatch (fst (room_deliver r e)) es))"
  by (simp add: split_beta)

lemma room_step_local:
  assumes "hasUser r (user_id (userInfo r))" and "\<not> names_local r a"
  shows "hasUser (fst (room_step r a)) (user_id (userInfo (fst (room_step r a))))"
proof (cases a)
  case (Join x y)
  then show ?thesis using assms(1) by (simp add: join_def Let_def split_beta hasUser_def)
next
  case Leave
  then show ?thesis using assms(2) by simp
next
  case (SendChat c t)
  then show ?thesis using assms(1)
    by (simp add: sendMessage_def getNextMessageId_def Let_def hasUser_def)
next
  case (Transport ev)
  show ?thesis
  proof (cases ev)
    case (Peer_open pid)
    then show ?thesis using Transport assms(1)
      by (simp add: peer_on_open_def settle_join_local del: dispatch.simps(2) add: dispatch_Cons)
  next
    case Peer_error
    then show ?thesis using Transport assms(1)
      by (simp add: peer_on_error_def optional_call_def onError_def settle_join_local
          del: dispatch.simps(2) add: dispatch_Cons)
  next
    case (Peer_connection conn)
    then show ?thesis using Transport assms(1) by (simp add: handleIncomingConnection_def)
  next
    case (Conn_open_outbound conn)
    then show ?thesis using Transport assms(1)
      by (simp add: conn_on_open_outbound_def optional_call_def onConnect_def settle_join_local
          del: dispatch.simps(2) add: dispatch_Cons)
  next
    case (Conn_open_inbound conn)
    then show ?thesis using Transport assms(1)
      by (simp add: conn_on_open_inbound_def optional_call_def onConnect_def)
  next
    case (Conn_error p)
    then show ?thesis using Transport assms(1)
      by (simp add: conn_on_error_def optional_call_def onError_def settle_join_local
          del: dispatch.simps(2) add: dispatch_Cons)
  next
    case (Conn_data p data)
    have "hasUser (fst (handleRoomMessage (r\<lparr>connection := connection r\<rparr>) data p))
            (user_id (userInfo r))"
      using assms Transport Conn_data
      by (intro handleRoomMessage_keeps) auto
    then show ?thesis using Transport Conn_data assms(1)
      by (simp add: conn_on_data_def dispatch_single handleRoomMessage_userInfo)
  next
    case (Conn_close p)
    then show ?thesis using Transport assms onDisconnect_local[of "r\<lparr>connection := (connection r)\<lparr>connections := AList.delete p (connections (connection r))\<rparr>\<rparr>" p]
      by (simp add: conn_on_close_def optional_call_def dispatch_single)
  qed
qed

lemma room_run_local:
  "hasUser r (user_id (userInfo r)) \<Longrightarrow> spares_local r as \<Longrightarrow>
   hasUser (room_run r as) (user_id (userInfo (room_run r as)))"
proof (induction as arbitrary: r)
  case Nil
  then show ?case by simp
next
  case (Cons a as)
  then show ?case using room_step_local[of r a] by simp
qed

text \<open>
  C3, as the code has it. The constructor puts the local identity into \<open>users\<close>. Every
  call and event keeps it there, \<open>join\<close> re-keying the entry when the transport assigns
  another identity, except those that name the local identity for removal: a \<open>LEAVE\<close>
  message whose \<open>userId\<close> is the local identity, the close of a channel keyed by the local
  identity, and \<open>leave\<close>. So in every state reached from a new room by calls and events
  none of which names the local identity, the local identity is a member. A \<open>LEAVE\<close>
  message whose \<open>userId\<close> is the local identity leaves the room without the local entry.
\<close>

theorem local_identity_stays_member:
  "hasUser (new_Room opts) (user_id (userInfo (new_Room opts))) \<and>
   (hasUser r (user_id (userInfo r)) \<longrightarrow> \<not> names_local r a \<longrightarrow>
      hasUser (fst (room_step r a)) (user_id (userInfo (fst (room_step r a))))) \<and>
   (spares_local (new_Room opts) as \<longrightarrow>
      hasUser (room_run (new_Room opts) as)
        (user_id (userInfo (room_run (new_Room opts) as)))) \<and>
   \<not> hasUser (fst (handleRoomMessage r (LeaveMessage (user_id (userInfo r))) fromPeerId))
       (user_id (userInfo (fst (handleRoomMessage r (LeaveMessage (user_id (userInfo r)))
          fromPeerId))))"
proof -
  have n: "hasUser (new_Room opts) (user_id (userInfo (new_Room opts)))"
    by (simp add: new_Room_def hasUser_def)
  have l: "\<not> hasUser (fst (handleRoomMessage r (LeaveMessage (user_id (userInfo r))) fromPeerId))
       (user_id (userInfo (fst (handleRoomMessage r (LeaveMessage (user_id (userInfo r)))
          fromPeerId))))"
    by (simp add: handleRoomMessage_def LeaveMessage_def handleLeaveMessage_def hasUser_def
        delete_conv')
  show ?thesis
    using n l room_step_local[of r a] room_run_local[OF n, of as] by blast
qed

text \<open>
  The same at a joiner constructed without an identity, to whom the transport assigns J:
  the entry is re-keyed to J and stays through messages, a chat and the close of the
  channel to the host.
\<close>

theorem local_identity_stays_member_witness:
  "spares_local
     (new_Room \<lparr>opt_roomId = ''H'', opt_userId = [], opt_username = ''Joiner'',
                cb_onJoin = True, cb_onLeave = True, cb_onMessage = True, cb_onError = True\<rparr>)
     [Join False False, Transport (Peer_open ''J''),
      Transport (Conn_open_outbound \<lparr>conn_peer = ''H'', send_throws = False\<rparr>),
      Transport (Conn_data ''H'' (JoinMessage \<lparr>user_id = ''H'', username = ''Host''\<rparr>)),
      Transport (Conn_data ''H'' (UserListMessage
         [\<lparr>user_id = ''H'', username = ''Host''\<rparr>, \<lparr>user_id = ''K'', username = ''Kim''\<rparr>])),
      Transport (Conn_data ''H'' (LeaveMessage ''K'')),
      SendChat ''hi'' 5,
      Transport (Conn_close ''H'')] \<and>
   hasUser
     (room_run
       (new_Room \<lparr>opt_roomId = ''H'', opt_userId = [], opt_username = ''Joiner'',
                cb_onJoin = True, cb_onLeave = True, cb_onMessage = True, cb_onError = True\<rparr>)
       [Join False False, Transport (Peer_open ''J''),
        Transport (Conn_open_outbound \<lparr>conn_peer = ''H'', send_throws = False\<rparr>),
        Transport (Conn_data ''H'' (JoinMessage \<lparr>user_id = ''H'', username = ''Host''\<rparr>)),
        Transport (Conn_data ''H'' (UserListMessage
           [\<lparr>user_id = ''H'', username = ''Host''\<rparr>, \<lparr>user_id = ''K'', username = ''Kim''\<rparr>])),
        Transport (Conn_data ''H'' (LeaveMessage ''K'')),
        SendChat ''hi'' 5,
        Transport (Conn_close ''H'')])
     ''J''"
proof -
  let ?r = "new_Room \<lparr>opt_roomId = ''H'', opt_userId = [], opt_username = ''Joiner'',
                cb_onJoin = True, cb_onLeave = True, cb_onMessage = True, cb_onError = True\<rparr>"
  let ?as = "[Join False False, Transport (Peer_open ''J''),
      Transport (Conn_open_outbound \<lparr>conn_peer = ''H'', send_throws = False\<rparr>),
      Transport (Conn_data ''H'' (JoinMessage \<lparr>user_id = ''H'', username = ''Host''\<rparr>)),
      Transport (Conn_data ''H'' (UserListMessage
         [\<lparr>user_id = ''H'', username = ''Host''\<rparr>, \<lparr>user_id = ''K'', username = ''Kim''\<rparr>])),
      Transport (Conn_data ''H'' (LeaveMessage ''K'')),
      SendChat ''hi'' 5,
      Transport (Conn_close ''H'')]"
  have e: "room_run ?r ?as =
     \<lparr>connection =
         \<lparr>peer = Some \<lparr>requested_id = None, connect_throws = False\<rparr>,
          connections = [],
          state = CONNECTING,
          events = \<lparr>has_onConnect = True, has_onDisconnect = True,
                    has_onMessage = True, has_onError = True\<rparr>,
          userId = []\<rparr>,
       roomId = ''H'',
       userInfo = \<lparr>user_id = ''J'', username = ''Joiner''\<rparr>,
       users = [(''J'', OwnUserInfo)],
       options = \<lparr>opt_roomId = ''H'', opt_userId = [], opt_username = ''Joiner'',
                cb_onJoin = True, cb_onLeave = True, cb_onMessage = True, cb_onError = True\<rparr>,
       messageIdCounter = 1,
       join_stage = NotJoining\<rparr>"
    by (simp add: new_Room_def new_WebRTCConnection_def on_events_def join_def initialize_def
      peer_on_open_def join_resume_def connect_def conn_on_open_outbound_def conn_on_close_def
      optional_call_def onConnect_def onDisconnect_def conn_on_data_def handleRoomMessage_def
      JoinMessage_def UserListMessage_def LeaveMessage_def handleJoinMessage_def
      handleUserListMessage_def handleLeaveMessage_def broadcastJoinMessage_def
      broadcastLeaveMessage_def broadcast_def sendMessage_def getNextMessageId_def
      js_increment_def hasUser_def Let_def)
  have h: "spares_local ?r ?as"
    by (simp add: new_Room_def new_WebRTCConnection_def on_events_def join_def initialize_def
      peer_on_open_def join_resume_def connect_def conn_on_open_outbound_def conn_on_close_def
      optional_call_def onConnect_def onDisconnect_def conn_on_data_def handleRoomMessage_def
      JoinMessage_def UserListMessage_def LeaveMessage_def handleJoinMessage_def
      handleUserListMessage_def handleLeaveMessage_def broadcastJoinMessage_def
      broadcastLeaveMessage_def broadcast_def sendMessage_def getNextMessageId_def
      js_increment_def hasUser_def Let_def)
  have "hasUser (room_run ?r ?as) (user_id (userInfo (room_run ?r ?as)))"
    using h local_identity_stays_member
      [of "\<lparr>opt_roomId = ''H'', opt_userId = [], opt_username = ''Joiner'',
                cb_onJoin = True, cb_onLeave = True, cb_onMessage = True, cb_onError = True\<rparr>"
          ?r "Join False False" ?as]
    by blast
  then have "hasUser (room_run ?r ?as) ''J''"
    unfolding e by simp
  with h show ?thesis by blast
qed

text \<open>
  C3, as the specification has it, fails. Alice hosts room A; B connects and sends a
  \<open>LEAVE\<close> message whose \<open>userId\<close> is A. \<open>handleLeaveMessage\<close> deletes the entry it is
  told to delete: the local identity is still A and is no member any more, although
  \<open>leave\<close> was not called.
\<close>

theorem leave_frame_removes_local_identity:
  "user_id (userInfo (room_run
      (new_Room \<lparr>opt_roomId = ''A'', opt_userId = ''A'', opt_username = ''Alice'',
                cb_onJoin = True, cb_onLeave = True, cb_onMessage = True, cb_onError = True\<rparr>)
      [Join False False, Transport (Peer_open ''A''),
       Transport (Peer_connection \<lparr>conn_peer = ''B'', send_throws = False\<rparr>),
       Transport (Conn_open_inbound \<lparr>conn_peer = ''B'', send_throws = False\<rparr>),
       Transport (Conn_data ''B'' (LeaveMessage ''A''))])) = ''A'' \<and>
   \<not> hasUser (room_run
      (new_Room \<lparr>opt_roomId = ''A'', opt_userId = ''A'', opt_username = ''Alice'',
                cb_onJoin = True, cb_onLeave = True, cb_onMessage = True, cb_onError = True\<rparr>)
      [Join False False, Transport (Peer_open ''A''),
       Transport (Peer_connection \<lparr>conn_peer = ''B'', send_throws = False\<rparr>),
       Transport (Conn_open_inbound \<lparr>conn_peer = ''B'', send_throws = False\<rparr>),
       Transport (Conn_data ''B'' (LeaveMessage ''A''))]) ''A''"
  by (simp add: new_Room_def new_WebRTCConnection_def on_events_def join_def initialize_def
      peer_on_open_def join_resume_def handleIncomingConnection_def conn_on_open_inbound_def
      optional_call_def onConnect_def conn_on_data_def handleRoomMessage_def LeaveMessage_def
      handleLeaveMessage_def hasUser_def Let_def)

subsection \<open>Announcements of members\<close>

lemma update_fresh_key:
  "k \<notin> fst ` set al \<Longrightarrow> AList.update k v al = al @ [(k, v)]"
  by (induction al) auto

lemma hasUser_keys: "hasUser r k \<longleftrightarrow> k \<in> set (map fst (users r))"
  by (simp add: hasUser_def map_of_eq_None_iff)

lemma userList_forEach_appends:
  "userList_forEach r us =
     (r\<lparr>users := users r @
          map (\<lambda>u. (user_id u, UserObject u)) (fresh_users (map fst (users r)) us)\<rparr>,
      concat (map (\<lambda>u. optional_call (cb_onJoin (options r)) (OnJoin (user_id u) (username u)))
        (fresh_users (map fst (users r)) us)))"
proof (induction us arbitrary: r)
  case Nil
  then show ?case by simp
next
  case (Cons u us)
  show ?case
  proof (cases "hasUser r (user_id u)")
    case True
    then show ?thesis using Cons.IH[of r] by (simp add: hasUser_keys)
  next
    case False
    let ?r' = "r\<lparr>users := AList.update (user_id u) (UserObject u) (users r)\<rparr>"
    have k: "user_id u \<notin> fst ` set (users r)" using False by (simp add: hasUser_keys)
    have u: "users ?r' = users r @ [(user_id u, UserObject u)]"
      using k by (simp add: update_fresh_key)
    show ?thesis
      using False k Cons.IH[of ?r'] unfolding u
      by (simp add: Let_def hasUser_keys update_fresh_key)
  qed
qed

lemma fresh_users_none:
  "user_id ` set us \<subseteq> set ks \<Longrightarrow> fresh_users ks us = []"
  by (induction us arbitrary: ks) auto

lemma fresh_users_keys:
  "set (ks @ map user_id (fresh_users ks us)) = set ks \<union> user_id ` set us"
proof (induction us arbitrary: ks)
  case Nil
  then show ?case by simp
next
  case (Cons u us)
  show ?case
  proof (cases "user_id u \<in> set ks")
    case True
    then show ?thesis using Cons.IH[of ks] by auto
  next
    case False
    have "set (ks @ map user_id (fresh_users ks (u # us)))
            = set ((ks @ [user_id u]) @ map user_id (fresh_users (ks @ [user_id u]) us))"
      using False by simp
    also have "\<dots> = set (ks @ [user_id u]) \<union> user_id ` set us"
      by (rule Cons.IH)
    finally show ?thesis by auto
  qed
qed

lemma deref_users: "deref (r\<lparr>users := x\<rparr>) = deref r"
  by (rule ext) (simp add: deref_def split: user_ref.splits)

lemma userList_forEach_idem:
  "userList_forEach (fst (userList_forEach r us)) us = (fst (userList_forEach r us), [])"
proof -
  let ?ks = "map fst (users r)"
  let ?r' = "fst (userList_forEach r us)"
  have k: "map fst (users ?r') = ?ks @ map user_id (fresh_users ?ks us)"
    by (simp add: userList_forEach_appends comp_def)
  have "user_id ` set us \<subseteq> set (map fst (users ?r'))"
    unfolding k fresh_users_keys by blast
  then have "fresh_users (map fst (users ?r')) us = []" by (rule fresh_users_none)
  then show ?thesis using userList_forEach_appends[of ?r' us] by simp
qed

lemma users_get_userList:
  "users_get (fst (userList_forEach r us)) k =
     (case users_get r k of Some v \<Rightarrow> Some v | None \<Rightarrow> find (\<lambda>u. user_id u = k) us)"
proof (induction us arbitrary: r)
  case Nil
  then show ?case by (simp split: option.splits)
next
  case (Cons u us)
  show ?case
  proof (cases "hasUser r (user_id u)")
    case True
    then show ?thesis using Cons.IH[of r]
      by (auto simp: hasUser_def users_get_def split: option.splits)
  next
    case False
    let ?r' = "r\<lparr>users := AList.update (user_id u) (UserObject u) (users r)\<rparr>"
    have g: "users_get ?r' = (users_get r)(user_id u \<mapsto> u)"
      by (rule ext) (simp add: users_get_def update_conv' deref_users, simp add: deref_def)
    have n: "users_get r (user_id u) = None" using False by (simp add: hasUser_def users_get_def)
    show ?thesis
      using False Cons.IH[of ?r'] n unfolding g
      by (auto simp: Let_def split_beta split: option.splits)
  qed
qed

lemma users_get_JoinMessage:
  "users_get (fst (handleRoomMessage r (JoinMessage u) p)) = (users_get r)(user_id u \<mapsto> u)"
  by (rule ext)
     (simp add: handleRoomMessage_def JoinMessage_def handleJoinMessage_def Let_def
        users_get_def update_conv' deref_users, simp add: deref_def)

lemma users_get_UserListMessage:
  "users_get (fst (handleRoomMessage r (UserListMessage us) p)) k =
     (case users_get r k of Some v \<Rightarrow> Some v | None \<Rightarrow> find (\<lambda>u. user_id u = k) us)"
  by (simp add: handleRoomMessage_def UserListMessage_def handleUserListMessage_def
      users_get_userList)

lemma find_user_Some: "find (\<lambda>u. user_id u = k) us = Some v \<Longrightarrow> v \<in> set us \<and> user_id v = k"
  by (induction us) (auto split: if_splits)

lemma find_user_None: "find (\<lambda>u. user_id u = k) us = None \<longleftrightarrow> k \<notin> user_id ` set us"
  by (induction us) auto

lemma frame_step:
  "Map.graph (users_get (fst (handleRoomMessage r (frame_of a) p)))
     \<subseteq> Map.graph (users_get r) \<union> (\<lambda>u. (user_id u, u)) ` announced a \<and>
   dom (users_get (fst (handleRoomMessage r (frame_of a) p)))
     = dom (users_get r) \<union> user_id ` announced a"
proof (cases a)
  case (Announce_JOIN u)
  then show ?thesis
    by (auto simp: users_get_JoinMessage Map.graph_def split: if_splits)
next
  case (Announce_USER_LIST us)
  have s: "Map.graph (users_get (fst (handleRoomMessage r (UserListMessage us) p)))
     \<subseteq> Map.graph (users_get r) \<union> (\<lambda>u. (user_id u, u)) ` set us"
  proof
    fix x assume x: "x \<in> Map.graph (users_get (fst (handleRoomMessage r (UserListMessage us) p)))"
    obtain k v where kv: "x = (k, v)" by (cases x)
    have g: "users_get (fst (handleRoomMessage r (UserListMessage us) p)) k = Some v"
      using x kv by (simp add: in_graphD)
    show "x \<in> Map.graph (users_get r) \<union> (\<lambda>u. (user_id u, u)) ` set us"
    proof (cases "users_get r k")
      case None
      then have "find (\<lambda>u. user_id u = k) us = Some v"
        using g by (simp add: users_get_UserListMessage)
      then have "v \<in> set us \<and> user_id v = k" by (rule find_user_Some)
      then show ?thesis using kv by auto
    next
      case (Some w)
      then have "w = v" using g by (simp add: users_get_UserListMessage)
      then show ?thesis using Some kv by (simp add: in_graphI)
    qed
  qed
  have d: "dom (users_get (fst (handleRoomMessage r (UserListMessage us) p)))
     = dom (users_get r) \<union> user_id ` set us"
  proof (rule set_eqI)
    fix k
    show "k \<in> dom (users_get (fst (handleRoomMessage r (UserListMessage us) p)))
       \<longleftrightarrow> k \<in> dom (users_get r) \<union> user_id ` set us"
      using find_user_None[of k us]
      by (cases "users_get r k"; cases "find (\<lambda>u. user_id u = k) us")
         (simp_all add: dom_def users_get_UserListMessage)
  qed
  show ?thesis using Announce_USER_LIST s d by simp
qed

lemma receive_bounds:
  "Map.graph (users_get (receive r fs)) \<subseteq> Map.graph (users_get r) \<union> announced_pairs fs \<and>
   dom (users_get (receive r fs)) = dom (users_get r) \<union> fst ` announced_pairs fs"
proof (induction fs arbitrary: r)
  case Nil
  then show ?case by (simp add: announced_pairs_def)
next
  case (Cons f fs)
  obtain p a where f: "f = (p, a)" by (cases f)
  let ?r1 = "fst (handleRoomMessage r (frame_of a) p)"
  have ap: "announced_pairs (f # fs) = (\<lambda>u. (user_id u, u)) ` announced a \<union> announced_pairs fs"
    by (simp add: announced_pairs_def f)
  have st: "Map.graph (users_get ?r1) \<subseteq> Map.graph (users_get r) \<union> (\<lambda>u. (user_id u, u)) ` announced a"
    and sd: "dom (users_get ?r1) = dom (users_get r) \<union> user_id ` announced a"
    using frame_step[of r a p] by blast+
  have it: "Map.graph (users_get (receive ?r1 fs)) \<subseteq> Map.graph (users_get ?r1) \<union> announced_pairs fs"
    and id: "dom (users_get (receive ?r1 fs)) = dom (users_get ?r1) \<union> fst ` announced_pairs fs"
    using Cons.IH[of ?r1] by blast+
  have "Map.graph (users_get (receive r (f # fs))) \<subseteq> Map.graph (users_get r) \<union> announced_pairs (f # fs)"
    unfolding ap using st it by (auto simp: f)
  moreover have "dom (users_get (receive r (f # fs))) = dom (users_get r) \<union> fst ` announced_pairs (f # fs)"
    unfolding ap using sd id by (auto simp: f image_Un image_image)
  ultimately show ?case by blast
qed

lemma receive_union:
  assumes "single_valued (Map.graph (users_get r) \<union> announced_pairs fs)"
  shows "Map.graph (users_get (receive r fs)) = Map.graph (users_get r) \<union> announced_pairs fs"
proof
  show "Map.graph (users_get (receive r fs)) \<subseteq> Map.graph (users_get r) \<union> announced_pairs fs"
    using receive_bounds[of r fs] by blast
next
  show "Map.graph (users_get r) \<union> announced_pairs fs \<subseteq> Map.graph (users_get (receive r fs))"
  proof
    fix x assume x: "x \<in> Map.graph (users_get r) \<union> announced_pairs fs"
    obtain k v where kv: "x = (k, v)" by (cases x)
    have "k \<in> dom (users_get r) \<union> fst ` announced_pairs fs"
      using x kv by (auto simp: Map.graph_def dom_def image_iff) force
    then have "k \<in> dom (users_get (receive r fs))" using receive_bounds[of r fs] by blast
    then obtain v' where v': "users_get (receive r fs) k = Some v'" by blast
    then have "(k, v') \<in> Map.graph (users_get r) \<union> announced_pairs fs"
      using receive_bounds[of r fs] by (auto simp: Map.graph_def)
    then have "v' = v" using assms x kv by (meson single_valuedD)
    then show "x \<in> Map.graph (users_get (receive r fs))" using v' kv by (simp add: Map.graph_def)
  qed
qed

lemma graph_eq_imp_eq: "Map.graph m = Map.graph m' \<Longrightarrow> m = m'"
proof (rule ext)
  fix k assume g: "Map.graph m = Map.graph m'"
  show "m k = m' k"
  proof (cases "m k")
    case None
    show ?thesis
    proof (cases "m' k")
      case None': None
      then show ?thesis using None by simp
    next
      case (Some v)
      then have "(k, v) \<in> Map.graph m" unfolding g by (rule in_graphI)
      then show ?thesis using None by (simp add: in_graphD)
    qed
  next
    case (Some v)
    then have "(k, v) \<in> Map.graph m'" unfolding g[symmetric] by (rule in_graphI)
    then show ?thesis using Some by (simp add: in_graphD)
  qed
qed

lemma receive_order:
  assumes "set fs' = set fs" 
    and "single_valued (Map.graph (users_get r) \<union> announced_pairs fs)"
  shows "users_get (receive r fs') = users_get (receive r fs)"
proof -
  have e: "announced_pairs fs' = announced_pairs fs" using assms(1) by (simp add: announced_pairs_def)
  show ?thesis
    using receive_union[of r fs] receive_union[of r fs'] assms(2) e
    by (intro graph_eq_imp_eq) simp
qed


lemma fresh_users_ids:
  "user_id ` set (fresh_users ks us) = user_id ` set us - set ks"
proof (induction us arbitrary: ks)
  case Nil
  then show ?case by simp
next
  case (Cons u us)
  show ?case
  proof (cases "user_id u \<in> set ks")
    case True
    then show ?thesis using Cons.IH[of ks] by auto
  next
    case False
    have "user_id ` set (fresh_users ks (u # us))
            = insert (user_id u) (user_id ` set (fresh_users (ks @ [user_id u]) us))"
      using False by simp
    also have "\<dots> = insert (user_id u) (user_id ` set us - set (ks @ [user_id u]))"
      by (simp only: Cons.IH)
    finally show ?thesis using False by auto
  qed
qed

lemma handleRoomMessage_UserListMessage:
  "handleRoomMessage r (UserListMessage us) p = userList_forEach r us"
  by (simp add: handleRoomMessage_def UserListMessage_def handleUserListMessage_def)

lemma receive_user_lists_keep:
  "users_get r k = Some v \<Longrightarrow>
   users_get (receive r (map (\<lambda>(p, us). (p, Announce_USER_LIST us)) ls)) k = Some v"
proof (induction ls arbitrary: r)
  case Nil
  then show ?case by simp
next
  case (Cons l ls)
  obtain p us where l: "l = (p, us)" by (cases l)
  have "users_get (fst (handleRoomMessage r (UserListMessage us) p)) k = Some v"
    using Cons.prems by (simp add: users_get_UserListMessage)
  then show ?case using l by (simp add: Cons.IH)
qed

text \<open>
  C1, as the code has it. A \<open>USER_LIST\<close> message appends to \<open>users\<close>, in the order of the
  list, each listed user whose id is neither a key already nor listed earlier, and calls
  the join callback for each of them; the entries that were there stay as they were, none
  overwritten and none removed. The inserted ids are the listed ids that were no keys.
  Applying the same list twice is the same as applying it once, and the second time no
  callback is called. Through any sequence of \<open>USER_LIST\<close> messages a known member keeps
  its entry. For any sequence of \<open>JOIN\<close> and \<open>USER_LIST\<close> messages, the keys of the result
  are the keys at the start and all announced ids, and every entry of the result was there
  at the start or was announced. If no id is announced with two different users, nor with
  a user other than the one already stored under it, the result is the union of the
  mapping at the start and all announced pairs, and it is the same for every order (and
  every repetition) of the same messages.
\<close>

theorem membership_is_union_of_announcements:
  "handleRoomMessage r (UserListMessage us) p =
     (r\<lparr>users := users r @
          map (\<lambda>u. (user_id u, UserObject u)) (fresh_users (map fst (users r)) us)\<rparr>,
      concat (map (\<lambda>u. optional_call (cb_onJoin (options r)) (OnJoin (user_id u) (username u)))
        (fresh_users (map fst (users r)) us))) \<and>
   user_id ` set (fresh_users (map fst (users r)) us) = user_id ` set us - fst ` set (users r) \<and>
   handleRoomMessage (fst (handleRoomMessage r (UserListMessage us) p)) (UserListMessage us) q =
     (fst (handleRoomMessage r (UserListMessage us) p), []) \<and>
   (users_get r k = Some v \<longrightarrow>
      users_get (receive r (map (\<lambda>(p, us). (p, Announce_USER_LIST us)) ls)) k = Some v) \<and>
   dom (users_get (receive r fs)) = dom (users_get r) \<union> fst ` announced_pairs fs \<and>
   Map.graph (users_get (receive r fs)) \<subseteq> Map.graph (users_get r) \<union> announced_pairs fs \<and>
   (single_valued (Map.graph (users_get r) \<union> announced_pairs fs) \<longrightarrow>
      Map.graph (users_get (receive r fs)) = Map.graph (users_get r) \<union> announced_pairs fs \<and>
      (set fs' = set fs \<longrightarrow> users_get (receive r fs') = users_get (receive r fs)))"
  using receive_bounds[of r fs] receive_union[of r fs] receive_order[of fs' fs r]
    receive_user_lists_keep[of r k v ls] userList_forEach_idem[of r us]
    userList_forEach_appends[of r us] fresh_users_ids[of "map fst (users r)" us]
  by (simp add: handleRoomMessage_UserListMessage)

text \<open>
  The same at a new room of Alice: a \<open>JOIN\<close> of Bob and a list of Carol and Bob agree on
  Bob, and both orders give the same mapping.
\<close>

theorem membership_is_union_of_announcements_witness:
  "single_valued (Map.graph (users_get
      (new_Room \<lparr>opt_roomId = ''A'', opt_userId = ''A'', opt_username = ''Alice'',
                cb_onJoin = True, cb_onLeave = True, cb_onMessage = True, cb_onError = True\<rparr>))
      \<union> announced_pairs
        [(''B'', Announce_JOIN \<lparr>user_id = ''B'', username = ''Bob''\<rparr>),
         (''C'', Announce_USER_LIST [\<lparr>user_id = ''C'', username = ''Carol''\<rparr>,
                                    \<lparr>user_id = ''B'', username = ''Bob''\<rparr>])]) \<and>
   users_get (receive
      (new_Room \<lparr>opt_roomId = ''A'', opt_userId = ''A'', opt_username = ''Alice'',
                cb_onJoin = True, cb_onLeave = True, cb_onMessage = True, cb_onError = True\<rparr>)
        [(''C'', Announce_USER_LIST [\<lparr>user_id = ''C'', username = ''Carol''\<rparr>,
                                    \<lparr>user_id = ''B'', username = ''Bob''\<rparr>]),
         (''B'', Announce_JOIN \<lparr>user_id = ''B'', username = ''Bob''\<rparr>)])
   = users_get (receive
      (new_Room \<lparr>opt_roomId = ''A'', opt_userId = ''A'', opt_username = ''Alice'',
                cb_onJoin = True, cb_onLeave = True, cb_onMessage = True, cb_onError = True\<rparr>)
        [(''B'', Announce_JOIN \<lparr>user_id = ''B'', username = ''Bob''\<rparr>),
         (''C'', Announce_USER_LIST [\<lparr>user_id = ''C'', username = ''Carol''\<rparr>,
                                    \<lparr>user_id = ''B'', username = ''Bob''\<rparr>])])"
proof -
  let ?r = "new_Room \<lparr>opt_roomId = ''A'', opt_userId = ''A'', opt_username = ''Alice'',
                cb_onJoin = True, cb_onLeave = True, cb_onMessage = True, cb_onError = True\<rparr>"
  let ?fs = "[(''B'', Announce_JOIN \<lparr>user_id = ''B'', username = ''Bob''\<rparr>),
         (''C'', Announce_USER_LIST [\<lparr>user_id = ''C'', username = ''Carol''\<rparr>,
                                    \<lparr>user_id = ''B'', username = ''Bob''\<rparr>])]"
  let ?fs' = "[(''C'', Announce_USER_LIST [\<lparr>user_id = ''C'', username = ''Carol''\<rparr>,
                                    \<lparr>user_id = ''B'', username = ''Bob''\<rparr>]),
         (''B'', Announce_JOIN \<lparr>user_id = ''B'', username = ''Bob''\<rparr>)]"
  have g: "Map.graph (users_get ?r) = {(''A'', \<lparr>user_id = ''A'', username = ''Alice''\<rparr>)}"
    by (auto simp: Map.graph_def users_get_def new_Room_def deref_def split: if_splits)
  have a: "announced_pairs ?fs = {(''B'', \<lparr>user_id = ''B'', username = ''Bob''\<rparr>),
      (''C'', \<lparr>user_id = ''C'', username = ''Carol''\<rparr>)}"
    by (auto simp: announced_pairs_def)
  have sv: "single_valued (Map.graph (users_get ?r) \<union> announced_pairs ?fs)"
    unfolding g a by (auto simp: single_valued_def)
  have st: "set ?fs' = set ?fs" by auto
  show ?thesis
    using sv st membership_is_union_of_announcements[of ?r "[]" "''B''" "''B''" "''A''" "\<lparr>user_id = ''A'', username = ''Alice''\<rparr>"
       "[]" ?fs ?fs']
    by blast
qed

text \<open>
  C1, as the specification has it, fails: two lists that announce the same id with
  different display names leave the name that arrived first, so the result depends on the
  order of delivery and is not the union of the announced pairs.
\<close>

theorem user_lists_do_not_commute:
  "users_get (receive
      (new_Room \<lparr>opt_roomId = ''A'', opt_userId = ''A'', opt_username = ''Alice'',
                cb_onJoin = True, cb_onLeave = True, cb_onMessage = True, cb_onError = True\<rparr>)
      [(''C'', Announce_USER_LIST [\<lparr>user_id = ''B'', username = ''Bob''\<rparr>]),
       (''D'', Announce_USER_LIST [\<lparr>user_id = ''B'', username = ''Robert''\<rparr>])]) ''B''
     = Some \<lparr>user_id = ''B'', username = ''Bob''\<rparr> \<and>
   users_get (receive
      (new_Room \<lparr>opt_roomId = ''A'', opt_userId = ''A'', opt_username = ''Alice'',
                cb_onJoin = True, cb_onLeave = True, cb_onMessage = True, cb_onError = True\<rparr>)
      [(''D'', Announce_USER_LIST [\<lparr>user_id = ''B'', username = ''Robert''\<rparr>]),
       (''C'', Announce_USER_LIST [\<lparr>user_id = ''B'', username = ''Bob''\<rparr>])]) ''B''
     = Some \<lparr>user_id = ''B'', username = ''Robert''\<rparr>"
  by (simp add: new_Room_def handleRoomMessage_def UserListMessage_def handleUserListMessage_def
      hasUser_def users_get_def deref_def Let_def)


section \<open>Properties of the identity acquisition\<close>

lemma peer_error_handler_taken:
  "identity_taken err \<Longrightarrow>
   peer_error_handler st err =
     (if retryCount st < MAX_RETRIES
      then (st\<lparr>connectionDetails := IdConflictRetrying (retryCount st + 1) MAX_RETRIES,
               retryCount := retryCount st + 1\<rparr>,
            [LogError, LogInfo, SetTimeout_initializePeer 1000])
      else (st\<lparr>connectionError := Some IdStillTaken,
               connectionDetails := CannotCreateUnique, isConnecting := False\<rparr>,
            [LogError]))"
  by (simp add: identity_taken_def peer_error_handler_def)

lemma chat_step_retries:
  "retryCount (fst (chat_step st ev)) = retryCount st + retries_scheduled (snd (chat_step st ev)) \<and>
   (retryCount st \<le> MAX_RETRIES \<longrightarrow> retryCount (fst (chat_step st ev)) \<le> MAX_RETRIES)"
  by (cases ev)
     (auto simp: initializePeer_def peer_error_handler_def retries_scheduled_def Let_def)

lemma retries_scheduled_append:
  "retries_scheduled (xs @ ys) = retries_scheduled xs + retries_scheduled ys"
  by (simp add: retries_scheduled_def)

lemma chat_run_retries:
  "retryCount (fst (chat_run st evs)) = retryCount st + retries_scheduled (snd (chat_run st evs)) \<and>
   (retryCount st \<le> MAX_RETRIES \<longrightarrow> retryCount (fst (chat_run st evs)) \<le> MAX_RETRIES)"
proof (induction evs arbitrary: st)
  case Nil
  then show ?case by (simp add: retries_scheduled_def)
next
  case (Cons ev evs)
  let ?s1 = "fst (chat_step st ev)"
  have a: "retryCount ?s1 = retryCount st + retries_scheduled (snd (chat_step st ev))"
    and b: "retryCount st \<le> MAX_RETRIES \<longrightarrow> retryCount ?s1 \<le> MAX_RETRIES"
    using chat_step_retries[of st ev] by blast+
  have c: "retryCount (fst (chat_run ?s1 evs)) =
             retryCount ?s1 + retries_scheduled (snd (chat_run ?s1 evs))"
    and d: "retryCount ?s1 \<le> MAX_RETRIES \<longrightarrow> retryCount (fst (chat_run ?s1 evs)) \<le> MAX_RETRIES"
    using Cons.IH[of ?s1] by blast+
  have f: "fst (chat_run st (ev # evs)) = fst (chat_run ?s1 evs)"
    by (simp add: split_beta)
  have g: "snd (chat_run st (ev # evs)) = snd (chat_step st ev) @ snd (chat_run ?s1 evs)"
    by (simp add: split_beta)
  show ?case
    unfolding f g retries_scheduled_append using a b c d by arith
qed

lemma retries_bounded:
  "retries_scheduled (snd (chat_run (effect_start p) evs)) \<le> MAX_RETRIES"
  using chat_run_retries[of "effect_start p" evs] by (simp add: effect_start_def)

lemma taken_in_a_row_state:
  "identity_taken err \<Longrightarrow> retryCount st + n \<le> MAX_RETRIES \<Longrightarrow>
   retryCount (fst (chat_run st (taken_in_a_row n err))) = retryCount st + n \<and>
   retries_scheduled (snd (chat_run st (taken_in_a_row n err))) = n \<and>
   (n > 0 \<longrightarrow> connectionError (fst (chat_run st (taken_in_a_row n err))) = None \<and>
      isConnecting (fst (chat_run st (taken_in_a_row n err))))"
proof (induction n arbitrary: st)
  case 0
  then show ?case by (simp add: retries_scheduled_def)
next
  case (Suc n)
  let ?st1 = "fst (initializePeer (fst (peer_error_handler st err)) True False)"
  have r: "retryCount ?st1 = retryCount st + 1"
    using Suc.prems by (simp add: peer_error_handler_taken initializePeer_def Let_def)
  have e: "connectionError ?st1 = None \<and> isConnecting ?st1"
    by (simp add: initializePeer_def Let_def)
  have s: "retries_scheduled (snd (peer_error_handler st err) @
             snd (initializePeer (fst (peer_error_handler st err)) True False)) = 1"
    using Suc.prems
    by (simp add: peer_error_handler_taken initializePeer_def Let_def retries_scheduled_def)
  have ih: "retryCount (fst (chat_run ?st1 (taken_in_a_row n err))) = retryCount ?st1 + n \<and>
   retries_scheduled (snd (chat_run ?st1 (taken_in_a_row n err))) = n \<and>
   (n > 0 \<longrightarrow> connectionError (fst (chat_run ?st1 (taken_in_a_row n err))) = None \<and>
      isConnecting (fst (chat_run ?st1 (taken_in_a_row n err))))"
    using Suc.IH[of ?st1] Suc.prems r by simp
  show ?case
  proof (cases n)
    case 0
    then show ?thesis using r e s by (simp add: split_beta)
  next
    case (Suc m)
    then show ?thesis using ih r s by (simp add: split_beta retries_scheduled_def)
  qed
qed

text \<open>
  C5. An error that the handler takes for a taken identity makes it schedule
  \<open>initializePeer\<close> again after 1000 ms, and count the retry, only while \<open>retryCount\<close> is
  below \<open>MAX_RETRIES\<close>, which is 3; otherwise it sets the error that the identity is
  still taken and schedules nothing. Whatever happens in a run of the effect, at most 3
  retries are scheduled. In particular, after 3 such failures in a row, each retried,
  the count is 3 with no error shown, and the 4th failure shows the error instead of
  retrying.
\<close>

theorem identity_retry_bounded:
  assumes "identity_taken err"
  shows "peer_error_handler st err =
     (if retryCount st < MAX_RETRIES
      then (st\<lparr>connectionDetails := IdConflictRetrying (retryCount st + 1) MAX_RETRIES,
               retryCount := retryCount st + 1\<rparr>,
            [LogError, LogInfo, SetTimeout_initializePeer 1000])
      else (st\<lparr>connectionError := Some IdStillTaken,
               connectionDetails := CannotCreateUnique, isConnecting := False\<rparr>,
            [LogError])) \<and>
    MAX_RETRIES = 3 \<and>
    retries_scheduled (snd (chat_run (effect_start p) evs)) \<le> MAX_RETRIES \<and>
    retryCount (fst (chat_run (effect_start p) (taken_in_a_row MAX_RETRIES err))) = MAX_RETRIES \<and>
    retries_scheduled (snd (chat_run (effect_start p) (taken_in_a_row MAX_RETRIES err)))
      = MAX_RETRIES \<and>
    connectionError (fst (chat_run (effect_start p) (taken_in_a_row MAX_RETRIES err))) = None \<and>
    connectionError (fst (chat_step
        (fst (chat_run (effect_start p) (taken_in_a_row MAX_RETRIES err))) (Peer_fails err)))
      = Some IdStillTaken \<and>
    snd (chat_step
        (fst (chat_run (effect_start p) (taken_in_a_row MAX_RETRIES err))) (Peer_fails err))
      = [LogError]"
proof -
  let ?st = "fst (chat_run (effect_start p) (taken_in_a_row MAX_RETRIES err))"
  have t: "retryCount ?st = MAX_RETRIES \<and>
     retries_scheduled (snd (chat_run (effect_start p) (taken_in_a_row MAX_RETRIES err)))
       = MAX_RETRIES \<and> connectionError ?st = None"
    using taken_in_a_row_state[OF assms, of "effect_start p" MAX_RETRIES]
    by (simp add: effect_start_def) (simp add: MAX_RETRIES_def)
  have l: "chat_step ?st (Peer_fails err) =
      (?st\<lparr>connectionError := Some IdStillTaken,
               connectionDetails := CannotCreateUnique, isConnecting := False\<rparr>, [LogError])"
    using t by (simp add: peer_error_handler_taken[OF assms])
  show ?thesis
    using t l retries_bounded[of p evs] peer_error_handler_taken[OF assms, of st]
    by (simp add: MAX_RETRIES_def)
qed

text \<open>The same at the error PeerJS raises for a taken identity.\<close>

theorem identity_retry_bounded_witness:
  "identity_taken \<lparr>err_type = ''unavailable-id'', err_message = Some ''ID room-1 is taken''\<rparr> \<and>
   retries_scheduled (snd (chat_run (effect_start False)
      (taken_in_a_row MAX_RETRIES
         \<lparr>err_type = ''unavailable-id'', err_message = Some ''ID room-1 is taken''\<rparr>))) = 3 \<and>
   connectionError (fst (chat_step
      (fst (chat_run (effect_start False)
         (taken_in_a_row MAX_RETRIES
            \<lparr>err_type = ''unavailable-id'', err_message = Some ''ID room-1 is taken''\<rparr>)))
      (Peer_fails \<lparr>err_type = ''unavailable-id'', err_message = Some ''ID room-1 is taken''\<rparr>)))
     = Some IdStillTaken"
proof -
  have h: "identity_taken
     \<lparr>err_type = ''unavailable-id'', err_message = Some ''ID room-1 is taken''\<rparr>"
    by (simp add: identity_taken_def message_is_taken_def sublist_code)
  show ?thesis
    using h identity_retry_bounded[OF h, of "effect_start False" False "[]"] by simp
qed

end
